theory Spec2Isabelle
  imports Complex_Main "HOL-Library.Log_Nat"
begin

section \<open>VPS seller portal: authentication, sessions and pricing\<close>

text \<open>
  A shallow embedding of the backend of the portal: the token service
  (\<^verbatim>\<open>services/authService.ts\<close>), the controllers
  (\<^verbatim>\<open>controllers/authController.ts\<close>), the authentication middleware
  (\<^verbatim>\<open>middleware/auth.ts\<close>) and the price calculator
  (\<^verbatim>\<open>routes/vps.ts\<close>). The database is an explicit state that every handler
  takes and returns; a thrown exception is the \<open>Inl\<close> branch of a sum. The wall clock
  is the argument \<open>now\<close>, in milliseconds since the epoch, read once per request.
\<close>

subsection \<open>Errors\<close>

text \<open>
  \<open>AppError m c\<close> is the error object with a message and an HTTP status code.
  The two JWT errors are the exception classes of the token library; \<open>PlainError\<close> is
  a bare \<^verbatim>\<open>new Error(...)\<close>, \<open>TypeError\<close> the runtime's own, \<open>PrismaError\<close> a rejection
  by the database client.
\<close>

datatype error =
    AppError string nat
  | TokenExpiredError
  | JsonWebTokenError string
  | PlainError string
  | TypeError string
  | PrismaError string

text \<open>
  Modelled from the spec: \<^verbatim>\<open>createError\<close> of \<^verbatim>\<open>middleware/errorHandler\<close> is not among the
  sources. It builds the error that the central handler turns into
  \<^verbatim>\<open>{success:false, message}\<close> with the given HTTP status.
\<close>

definition createError :: "string \<Rightarrow> nat \<Rightarrow> error" where
  "createError message statusCode = AppError message statusCode"

subsection \<open>Reading numbers from strings\<close>

definition is_ws :: "char \<Rightarrow> bool" where
  "is_ws c = (c = CHR '' '' \<or> c = CHR 0x09 \<or> c = CHR 0x0A \<or> c = CHR 0x0B
     \<or> c = CHR 0x0C \<or> c = CHR 0x0D)"

definition digit_of :: "char \<Rightarrow> nat option" where
  "digit_of c =
     (let n = of_char c :: nat in
      if 48 \<le> n \<and> n \<le> 57 then Some (n - 48)
      else if 97 \<le> n \<and> n \<le> 102 then Some (n - 87)
      else if 65 \<le> n \<and> n \<le> 70 then Some (n - 55)
      else None)"

definition is_digit_in :: "nat \<Rightarrow> char \<Rightarrow> bool" where
  "is_digit_in radix c = (case digit_of c of None \<Rightarrow> False | Some d \<Rightarrow> d < radix)"

definition digits_value :: "nat \<Rightarrow> string \<Rightarrow> nat" where
  "digits_value radix ds = foldl (\<lambda>acc c. acc * radix + (case digit_of c of None \<Rightarrow> 0 | Some d \<Rightarrow> d)) 0 ds"

text \<open>
  \<^verbatim>\<open>parseInt(s, radix)\<close> after the radix is known: leading white space, an optional
  sign, then the longest prefix of digits; \<open>None\<close> is \<^verbatim>\<open>NaN\<close> (no digit at all).
\<close>

definition parseInt_radix :: "nat \<Rightarrow> bool \<Rightarrow> string \<Rightarrow> int option" where
  "parseInt_radix radix neg s =
     (let ds = takeWhile (is_digit_in radix) s in
      if ds = [] then None
      else Some ((if neg then - 1 else 1) * int (digits_value radix ds)))"

definition strip_sign :: "string \<Rightarrow> bool \<times> string" where
  "strip_sign s =
     (case s of
        c # r \<Rightarrow> if c = CHR ''-'' then (True, r) else if c = CHR ''+'' then (False, r) else (False, s)
      | [] \<Rightarrow> (False, s))"

text \<open>\<^verbatim>\<open>parseInt(s, 10)\<close>.\<close>

definition parseInt10 :: "string \<Rightarrow> int option" where
  "parseInt10 s = (case strip_sign (dropWhile is_ws s) of (neg, r) \<Rightarrow> parseInt_radix 10 neg r)"

text \<open>\<^verbatim>\<open>parseInt(s)\<close> with no radix: a \<^verbatim>\<open>0x\<close> or \<^verbatim>\<open>0X\<close> prefix selects base 16.\<close>

definition parseInt :: "string \<Rightarrow> int option" where
  "parseInt s =
     (case strip_sign (dropWhile is_ws s) of
        (neg, r) \<Rightarrow>
          (case r of
             a # b # r' \<Rightarrow>
               if a = CHR ''0'' \<and> (b = CHR ''x'' \<or> b = CHR ''X'') then parseInt_radix 16 neg r'
               else parseInt_radix 10 neg r
           | _ \<Rightarrow> parseInt_radix 10 neg r))"

subsection \<open>JSON web tokens\<close>

record JWTPayload =
  p_userId :: nat
  p_email :: string
  p_role :: string

text \<open>
  Modelled from the spec: the \<^verbatim>\<open>jsonwebtoken\<close> package is a dependency, not a source
  file. Tokens are symbolic: \<open>Jwt p k iat exp\<close> is the payload \<open>p\<close> signed with the
  secret \<open>k\<close>, issued at second \<open>iat\<close> and expiring at second \<open>exp\<close>; two tokens are the
  same string exactly when the four agree (signing is deterministic). \<open>Opaque s\<close> is
  any other string. A signature is taken to verify under the signing secret only.
  Row identifiers, strings in the source, are the numbers the database hands out.
\<close>

datatype jwt = Jwt JWTPayload string int int | Opaque string

text \<open>
  The time span syntax of the library behind \<^verbatim>\<open>expiresIn\<close>, on the forms in use:
  digits followed by one of \<^verbatim>\<open>s m h d w y\<close>, or bare digits (milliseconds).
\<close>

definition all_digits :: "string \<Rightarrow> bool" where
  "all_digits s = (s \<noteq> [] \<and> list_all (is_digit_in 10) s)"

definition ms_timespan :: "string \<Rightarrow> int option" where
  "ms_timespan s =
     (if all_digits s then Some (int (digits_value 10 s))
      else if s = [] \<or> \<not> all_digits (butlast s) then None
      else
        (let n = int (digits_value 10 (butlast s)); u = last s in
         if u = CHR ''s'' then Some (n * 1000)
         else if u = CHR ''m'' then Some (n * 60000)
         else if u = CHR ''h'' then Some (n * 3600000)
         else if u = CHR ''d'' then Some (n * 86400000)
         else if u = CHR ''w'' then Some (n * 604800000)
         else if u = CHR ''y'' then Some (n * 31557600000)
         else None))"

definition jwt_sign :: "JWTPayload \<Rightarrow> string \<Rightarrow> string \<Rightarrow> int \<Rightarrow> error + jwt" where
  "jwt_sign payload secret expiresIn now =
     (if secret = [] then Inl (PlainError ''secretOrPrivateKey must have a value'')
      else
        (case ms_timespan expiresIn of
           None \<Rightarrow> Inl (PlainError ''expiresIn should be a number of seconds or a timespan string'')
         | Some ms \<Rightarrow> Inr (Jwt payload secret (now div 1000) (now div 1000 + ms div 1000))))"

text \<open>The signature is checked before the expiry.\<close>

definition jwt_verify :: "jwt \<Rightarrow> string \<Rightarrow> int \<Rightarrow> error + JWTPayload" where
  "jwt_verify token secret now =
     (case token of
        Opaque s \<Rightarrow> Inl (JsonWebTokenError (if s = [] then ''jwt must be provided'' else ''jwt malformed''))
      | Jwt payload k iat expiry \<Rightarrow>
          if secret = [] then Inl (JsonWebTokenError ''secret or public key must be provided'')
          else if k \<noteq> secret then Inl (JsonWebTokenError ''invalid signature'')
          else if expiry \<le> now div 1000 then Inl TokenExpiredError
          else Inr payload)"

subsection \<open>The token service\<close>

record AuthService =
  jwtSecret :: string
  jwtRefreshSecret :: string
  jwtExpiresIn :: string
  jwtRefreshExpiresIn :: string

record AuthTokens =
  accessToken :: jwt
  refreshToken :: jwt

definition generateTokens :: "AuthService \<Rightarrow> int \<Rightarrow> JWTPayload \<Rightarrow> error + AuthTokens" where
  "generateTokens svc now payload =
     (case jwt_sign payload (jwtSecret svc) (jwtExpiresIn svc) now of
        Inl e \<Rightarrow> Inl e
      | Inr a \<Rightarrow>
          (case jwt_sign payload (jwtRefreshSecret svc) (jwtRefreshExpiresIn svc) now of
             Inl e \<Rightarrow> Inl e
           | Inr r \<Rightarrow> Inr \<lparr>accessToken = a, refreshToken = r\<rparr>))"

definition verifyAccessToken :: "AuthService \<Rightarrow> int \<Rightarrow> jwt \<Rightarrow> error + JWTPayload" where
  "verifyAccessToken svc now token =
     (case jwt_verify token (jwtSecret svc) now of
        Inr payload \<Rightarrow> Inr payload
      | Inl TokenExpiredError \<Rightarrow> Inl (createError ''Access token expired'' 401)
      | Inl (JsonWebTokenError m) \<Rightarrow> Inl (createError ''Invalid access token'' 401)
      | Inl e \<Rightarrow> Inl e)"

definition verifyRefreshToken :: "AuthService \<Rightarrow> int \<Rightarrow> jwt \<Rightarrow> error + JWTPayload" where
  "verifyRefreshToken svc now token =
     (case jwt_verify token (jwtRefreshSecret svc) now of
        Inr payload \<Rightarrow> Inr payload
      | Inl TokenExpiredError \<Rightarrow> Inl (createError ''Refresh token expired'' 401)
      | Inl (JsonWebTokenError m) \<Rightarrow> Inl (createError ''Invalid refresh token'' 401)
      | Inl e \<Rightarrow> Inl e)"

text \<open>
  \<^verbatim>\<open>parseTimeToMs\<close>: the last character is the unit, the rest goes through
  \<^verbatim>\<open>parseInt\<close>. \<open>Inr None\<close> is the result \<^verbatim>\<open>NaN\<close>.
\<close>

definition parseTimeToMs :: "string \<Rightarrow> error + int option" where
  "parseTimeToMs timeString =
     (let unit = (if timeString = [] then [] else [last timeString]);
          v = parseInt (butlast timeString)
      in if unit = ''s'' then Inr (map_option (\<lambda>n. n * 1000) v)
         else if unit = ''m'' then Inr (map_option (\<lambda>n. n * 60 * 1000) v)
         else if unit = ''h'' then Inr (map_option (\<lambda>n. n * 60 * 60 * 1000) v)
         else if unit = ''d'' then Inr (map_option (\<lambda>n. n * 24 * 60 * 60 * 1000) v)
         else Inl (PlainError (''Invalid time format: '' @ timeString)))"

subsection \<open>The database\<close>

text \<open>
  Modelled from the spec: the ORM schema is not among the sources. A user row has the
  columns the controllers read and write; \<open>u_status\<close> and \<open>u_role\<close> are the strings
  the code compares them with (\<^verbatim>\<open>'PENDING'\<close>, \<^verbatim>\<open>'ACTIVE'\<close>, \<^verbatim>\<open>'SUSPENDED'\<close>,
  \<^verbatim>\<open>'TERMINATED'\<close>; \<^verbatim>\<open>'CUSTOMER'\<close>, \<^verbatim>\<open>'ADMIN'\<close>, \<^verbatim>\<open>'SUPER_ADMIN'\<close>). A new user
  starts with \<open>emailVerified\<close> and \<open>twoFactorEnabled\<close> false and no TOTP secret.
  The password hash is symbolic too: \<open>Bcrypt p\<close> is a salted hash of \<open>p\<close>, and a
  password compares equal to it exactly when it is \<open>p\<close>.
\<close>

datatype pwhash = Bcrypt string

record User =
  u_id :: nat
  u_email :: string
  u_passwordHash :: pwhash
  u_firstName :: string
  u_lastName :: string
  u_phoneNumber :: "string option"
  u_role :: string
  u_status :: string
  u_emailVerified :: bool
  u_twoFactorEnabled :: bool
  u_twoFactorSecret :: "string option"
  u_lastLoginAt :: "int option"
  u_createdAt :: int

record Session =
  s_id :: nat
  s_userId :: nat
  s_token :: jwt
  s_refreshToken :: jwt
  s_expiresAt :: int
  s_refreshExpiresAt :: int
  s_ipAddress :: "string option"
  s_userAgent :: "string option"

record AuditLog =
  a_userId :: nat
  a_action :: string
  a_resourceType :: string
  a_resourceId :: nat
  a_details :: "(string \<times> string) list"
  a_ipAddress :: "string option"
  a_userAgent :: "string option"

record Mail =
  m_to :: string
  m_token :: jwt

text \<open>
  The state outside the process: the three tables, the verification mails that went
  out, and the counter the database draws fresh row identifiers from.
\<close>

record World =
  users :: "User list"
  sessions :: "Session list"
  auditLogs :: "AuditLog list"
  outbox :: "Mail list"
  nextId :: nat

text \<open>What a handler reads from the request and its surroundings besides the body.\<close>

record Ctx =
  c_now :: int
  c_ip :: "string option"
  c_userAgent :: "string option"
  c_mailUp :: bool

definition findUserByEmail :: "World \<Rightarrow> string \<Rightarrow> User option" where
  "findUserByEmail w e = find (\<lambda>u. u_email u = e) (users w)"

definition findUserById :: "World \<Rightarrow> nat \<Rightarrow> User option" where
  "findUserById w i = find (\<lambda>u. u_id u = i) (users w)"

text \<open>\<^verbatim>\<open>prisma.user.update\<close> rejects when no row has the identifier.\<close>

definition updateUser :: "nat \<Rightarrow> (User \<Rightarrow> User) \<Rightarrow> World \<Rightarrow> error + World" where
  "updateUser i f w =
     (if findUserById w i = None then Inl (PrismaError ''Record to update not found'')
      else Inr (w\<lparr>users := map (\<lambda>u. if u_id u = i then f u else u) (users w)\<rparr>))"

definition createAuditLog :: "AuditLog \<Rightarrow> World \<Rightarrow> World" where
  "createAuditLog entry w = w\<lparr>auditLogs := auditLogs w @ [entry]\<rparr>"

definition findSessionByRefreshToken :: "World \<Rightarrow> jwt \<Rightarrow> Session option" where
  "findSessionByRefreshToken w t = find (\<lambda>s. s_refreshToken s = t) (sessions w)"

text \<open>
  \<^verbatim>\<open>prisma.session.create\<close>. The refresh token column is unique (the lookup
  \<^verbatim>\<open>findUnique({where: {refreshToken}})\<close> needs it), so a second row with the same
  refresh token is rejected.
\<close>

definition createSession :: "Session \<Rightarrow> World \<Rightarrow> error + World" where
  "createSession row w =
     (if findSessionByRefreshToken w (s_refreshToken row) \<noteq> None
      then Inl (PrismaError ''Unique constraint failed on the fields: (refreshToken)'')
      else Inr (w\<lparr>sessions := sessions w @ [row\<lparr>s_id := nextId w\<rparr>], nextId := Suc (nextId w)\<rparr>))"

definition deleteSession :: "nat \<Rightarrow> World \<Rightarrow> World" where
  "deleteSession i w = w\<lparr>sessions := filter (\<lambda>s. s_id s \<noteq> i) (sessions w)\<rparr>"

subsection \<open>Passwords and sessions\<close>

definition hashPassword :: "string \<Rightarrow> pwhash" where
  "hashPassword password = Bcrypt password"

definition comparePassword :: "string \<Rightarrow> pwhash \<Rightarrow> bool" where
  "comparePassword password h = (case h of Bcrypt p \<Rightarrow> password = p)"

text \<open>
  \<^verbatim>\<open>storeSession\<close>. A time span that \<^verbatim>\<open>parseTimeToMs\<close> rejects throws before the
  database is touched; one that parses to \<^verbatim>\<open>NaN\<close> gives an invalid date, which the
  database client refuses.
\<close>

definition storeSession ::
  "AuthService \<Rightarrow> int \<Rightarrow> nat \<Rightarrow> AuthTokens \<Rightarrow> string option \<Rightarrow> string option \<Rightarrow> World \<Rightarrow> error + World"
where
  "storeSession svc now userId tokens ipAddress userAgent w =
     (case parseTimeToMs (jwtExpiresIn svc) of
        Inl e \<Rightarrow> Inl e
      | Inr a \<Rightarrow>
          (case parseTimeToMs (jwtRefreshExpiresIn svc) of
             Inl e \<Rightarrow> Inl e
           | Inr r \<Rightarrow>
               (case (a, r) of
                  (Some ams, Some rms) \<Rightarrow>
                    createSession
                      \<lparr>s_id = 0, s_userId = userId, s_token = accessToken tokens,
                       s_refreshToken = refreshToken tokens, s_expiresAt = now + ams,
                       s_refreshExpiresAt = now + rms, s_ipAddress = ipAddress,
                       s_userAgent = userAgent\<rparr> w
                | _ \<Rightarrow> Inl (PrismaError ''Provided Date object is invalid''))))"

definition refreshSession ::
  "AuthService \<Rightarrow> int \<Rightarrow> jwt \<Rightarrow> World \<Rightarrow> (error + AuthTokens) \<times> World"
where
  "refreshSession svc now refreshTok w =
     (case verifyRefreshToken svc now refreshTok of
        Inl e \<Rightarrow> (Inl e, w)
      | Inr payload \<Rightarrow>
          (case findSessionByRefreshToken w refreshTok of
             None \<Rightarrow> (Inl (createError ''Session expired'' 401), w)
           | Some session \<Rightarrow>
               if s_refreshExpiresAt session < now then (Inl (createError ''Session expired'' 401), w)
               else
                 (case findUserById w (s_userId session) of
                    None \<Rightarrow> (Inl (TypeError ''Cannot read properties of null (reading status)''), w)
                  | Some user \<Rightarrow>
                      if u_status user \<noteq> ''ACTIVE'' then (Inl (createError ''Account is not active'' 401), w)
                      else
                        (let w1 = deleteSession (s_id session) w in
                         case generateTokens svc now
                                \<lparr>p_userId = p_userId payload, p_email = p_email payload,
                                 p_role = p_role payload\<rparr> of
                           Inl e \<Rightarrow> (Inl e, w1)
                         | Inr newTokens \<Rightarrow>
                             (case storeSession svc now (p_userId payload) newTokens None None w1 of
                                Inl e \<Rightarrow> (Inl e, w1)
                              | Inr w2 \<Rightarrow> (Inr newTokens, w2))))))"

definition revokeSession :: "jwt \<Rightarrow> World \<Rightarrow> World" where
  "revokeSession token w = w\<lparr>sessions := filter (\<lambda>s. s_token s \<noteq> token) (sessions w)\<rparr>"

definition revokeAllUserSessions :: "nat \<Rightarrow> World \<Rightarrow> World" where
  "revokeAllUserSessions userId w = w\<lparr>sessions := filter (\<lambda>s. s_userId s \<noteq> userId) (sessions w)\<rparr>"

subsection \<open>Time-based one-time passwords\<close>

text \<open>
  Modelled from the spec: the \<^verbatim>\<open>speakeasy\<close> package is a dependency, not a source
  file. \<open>hotp secret counter\<close>, the six-digit code of a counter, is a parameter. The
  time step is 30 seconds. Verification with a window \<open>n\<close> compares the presented
  code with the codes of the counters \<open>c - n\<close> to \<open>c + n\<close>, \<open>c\<close> the counter of the
  current time: the two-sided window of the spec.
\<close>

definition totp_counter :: "int \<Rightarrow> int" where
  "totp_counter now = now div 30000"

definition hotp_verifyDelta ::
  "(string \<Rightarrow> int \<Rightarrow> string) \<Rightarrow> string \<Rightarrow> string \<Rightarrow> int \<Rightarrow> int \<Rightarrow> int option"
where
  "hotp_verifyDelta hotp secret token counter window =
     (if length token \<noteq> 6 then None
      else
        (case parseInt10 token of
           None \<Rightarrow> None
         | Some t \<Rightarrow>
             map_option (\<lambda>i. i - counter)
               (find (\<lambda>i. parseInt10 (hotp secret i) = Some t) [counter..counter + window])))"

definition totp_verify ::
  "(string \<Rightarrow> int \<Rightarrow> string) \<Rightarrow> string \<Rightarrow> string \<Rightarrow> int \<Rightarrow> int \<Rightarrow> bool"
where
  "totp_verify hotp secret token now window =
     (hotp_verifyDelta hotp secret token (totp_counter now - window) (window + window) \<noteq> None)"

text \<open>The code a user's authenticator shows at a given time.\<close>

definition totp_generate :: "(string \<Rightarrow> int \<Rightarrow> string) \<Rightarrow> string \<Rightarrow> int \<Rightarrow> string" where
  "totp_generate hotp secret now = hotp secret (totp_counter now)"

definition verify2FAToken ::
  "(string \<Rightarrow> int \<Rightarrow> string) \<Rightarrow> string \<Rightarrow> string \<Rightarrow> int \<Rightarrow> bool"
where
  "verify2FAToken hotp secret token now = totp_verify hotp secret token now 2"

subsection \<open>Controllers\<close>

record RegisterBody =
  r_email :: string
  r_password :: string
  r_firstName :: string
  r_lastName :: string
  r_phoneNumber :: "string option"

definition register ::
  "AuthService \<Rightarrow> Ctx \<Rightarrow> RegisterBody \<Rightarrow> World \<Rightarrow> (error + User) \<times> World"
where
  "register svc ctx body w =
     (case findUserByEmail w (r_email body) of
        Some existingUser \<Rightarrow> (Inl (createError ''A user with this email already exists'' 409), w)
      | None \<Rightarrow>
          (let user =
                 \<lparr>u_id = nextId w, u_email = r_email body,
                  u_passwordHash = hashPassword (r_password body),
                  u_firstName = r_firstName body, u_lastName = r_lastName body,
                  u_phoneNumber = r_phoneNumber body, u_role = ''CUSTOMER'',
                  u_status = ''PENDING'', u_emailVerified = False, u_twoFactorEnabled = False,
                  u_twoFactorSecret = None, u_lastLoginAt = None, u_createdAt = c_now ctx\<rparr>;
               w1 = w\<lparr>users := users w @ [user], nextId := Suc (nextId w)\<rparr>
           in case generateTokens svc (c_now ctx)
                     \<lparr>p_userId = u_id user, p_email = u_email user, p_role = u_role user\<rparr> of
                Inl e \<Rightarrow> (Inl e, w1)
              | Inr tokens \<Rightarrow>
                  if \<not> c_mailUp ctx then (Inl (createError ''Failed to send email'' 500), w1)
                  else
                    (let w2 = w1\<lparr>outbox := outbox w1 @
                                 [\<lparr>m_to = u_email user, m_token = accessToken tokens\<rparr>]\<rparr>;
                         w3 = createAuditLog
                                \<lparr>a_userId = u_id user, a_action = ''USER_REGISTERED'',
                                 a_resourceType = ''USER'', a_resourceId = u_id user,
                                 a_details = [(''email'', u_email user),
                                              (''firstName'', r_firstName body),
                                              (''lastName'', r_lastName body)],
                                 a_ipAddress = c_ip ctx, a_userAgent = c_userAgent ctx\<rparr> w2
                     in (Inr user, w3))))"

record LoginBody =
  l_email :: string
  l_password :: string
  l_rememberMe :: "bool option"

record UserResponse =
  v_id :: nat
  v_email :: string
  v_firstName :: string
  v_lastName :: string
  v_role :: string
  v_status :: string
  v_emailVerified :: bool
  v_twoFactorEnabled :: bool
  v_lastLoginAt :: "int option"

record LoginResponse =
  lr_message :: string
  lr_user :: UserResponse
  lr_tokens :: "AuthTokens option"
  lr_requires2FA :: bool
  lr_tempToken :: "jwt option"

definition userResponse :: "User \<Rightarrow> UserResponse" where
  "userResponse user =
     \<lparr>v_id = u_id user, v_email = u_email user, v_firstName = u_firstName user,
      v_lastName = u_lastName user, v_role = u_role user, v_status = u_status user,
      v_emailVerified = u_emailVerified user, v_twoFactorEnabled = u_twoFactorEnabled user,
      v_lastLoginAt = u_lastLoginAt user\<rparr>"

definition rememberMe_details :: "bool option \<Rightarrow> (string \<times> string) list" where
  "rememberMe_details r =
     (case r of None \<Rightarrow> [] | Some b \<Rightarrow> [(''rememberMe'', if b then ''true'' else ''false'')])"

definition login ::
  "AuthService \<Rightarrow> Ctx \<Rightarrow> LoginBody \<Rightarrow> World \<Rightarrow> (error + LoginResponse) \<times> World"
where
  "login svc ctx body w =
     (case findUserByEmail w (l_email body) of
        None \<Rightarrow> (Inl (createError ''Invalid email or password'' 401), w)
      | Some user \<Rightarrow>
          if \<not> comparePassword (l_password body) (u_passwordHash user)
          then (Inl (createError ''Invalid email or password'' 401), w)
          else if u_status user = ''SUSPENDED''
          then (Inl (createError ''Account has been suspended'' 403), w)
          else if u_status user = ''TERMINATED''
          then (Inl (createError ''Account has been terminated'' 403), w)
          else
            (case generateTokens svc (c_now ctx)
                    \<lparr>p_userId = u_id user, p_email = u_email user, p_role = u_role user\<rparr> of
               Inl e \<Rightarrow> (Inl e, w)
             | Inr tokens \<Rightarrow>
                 (case storeSession svc (c_now ctx) (u_id user) tokens (c_ip ctx) (c_userAgent ctx) w of
                    Inl e \<Rightarrow> (Inl e, w)
                  | Inr w1 \<Rightarrow>
                      (case updateUser (u_id user) (\<lambda>u. u\<lparr>u_lastLoginAt := Some (c_now ctx)\<rparr>) w1 of
                         Inl e \<Rightarrow> (Inl e, w1)
                       | Inr w2 \<Rightarrow>
                           (let w3 = createAuditLog
                                       \<lparr>a_userId = u_id user, a_action = ''USER_LOGIN'',
                                        a_resourceType = ''USER'', a_resourceId = u_id user,
                                        a_details = (''email'', l_email body) #
                                                    rememberMe_details (l_rememberMe body),
                                        a_ipAddress = c_ip ctx, a_userAgent = c_userAgent ctx\<rparr> w2
                            in if u_twoFactorEnabled user
                               then (Inr \<lparr>lr_message = ''Login successful. Please enter your 2FA code.'',
                                          lr_user = userResponse user, lr_tokens = None,
                                          lr_requires2FA = True,
                                          lr_tempToken = Some (accessToken tokens)\<rparr>, w3)
                               else (Inr \<lparr>lr_message = ''Login successful'',
                                          lr_user = userResponse user, lr_tokens = Some tokens,
                                          lr_requires2FA = False, lr_tempToken = None\<rparr>, w3))))))"

record Verify2FABody =
  v_token :: string
  v_tempToken :: jwt

definition verify2FA ::
  "(string \<Rightarrow> int \<Rightarrow> string) \<Rightarrow> AuthService \<Rightarrow> Ctx \<Rightarrow> Verify2FABody \<Rightarrow> World
     \<Rightarrow> (error + User \<times> AuthTokens) \<times> World"
where
  "verify2FA hotp svc ctx body w =
     (case verifyAccessToken svc (c_now ctx) (v_tempToken body) of
        Inl e \<Rightarrow> (Inl (createError ''Invalid or expired temporary token'' 401), w)
      | Inr payload \<Rightarrow>
          (case findUserById w (p_userId payload) of
             None \<Rightarrow> (Inl (createError ''2FA not set up for this account'' 400), w)
           | Some user \<Rightarrow>
               (case u_twoFactorSecret user of
                  None \<Rightarrow> (Inl (createError ''2FA not set up for this account'' 400), w)
                | Some secret \<Rightarrow>
                    if secret = [] then (Inl (createError ''2FA not set up for this account'' 400), w)
                    else if \<not> verify2FAToken hotp secret (v_token body) (c_now ctx)
                    then (Inl (createError ''Invalid 2FA code'' 401), w)
                    else
                      (case generateTokens svc (c_now ctx)
                              \<lparr>p_userId = u_id user, p_email = u_email user, p_role = u_role user\<rparr> of
                         Inl e \<Rightarrow> (Inl e, w)
                       | Inr tokens \<Rightarrow>
                           (case storeSession svc (c_now ctx) (u_id user) tokens
                                   (c_ip ctx) (c_userAgent ctx) w of
                              Inl e \<Rightarrow> (Inl e, w)
                            | Inr w1 \<Rightarrow>
                                (Inr (user, tokens),
                                 createAuditLog
                                   \<lparr>a_userId = u_id user, a_action = ''2FA_VERIFIED'',
                                    a_resourceType = ''USER'', a_resourceId = u_id user,
                                    a_details = [], a_ipAddress = c_ip ctx,
                                    a_userAgent = c_userAgent ctx\<rparr> w1))))))"

definition refreshTokenHandler ::
  "AuthService \<Rightarrow> Ctx \<Rightarrow> jwt \<Rightarrow> World \<Rightarrow> (error + AuthTokens) \<times> World"
where
  "refreshTokenHandler svc ctx refreshTok w = refreshSession svc (c_now ctx) refreshTok w"

definition verifyEmail ::
  "AuthService \<Rightarrow> Ctx \<Rightarrow> jwt \<Rightarrow> World \<Rightarrow> (error + string) \<times> World"
where
  "verifyEmail svc ctx token w =
     (case verifyAccessToken svc (c_now ctx) token of
        Inl e \<Rightarrow> (Inl e, w)
      | Inr payload \<Rightarrow>
          (case findUserById w (p_userId payload) of
             None \<Rightarrow> (Inl (createError ''Invalid verification token'' 400), w)
           | Some user \<Rightarrow>
               if u_emailVerified user then (Inr ''Email already verified'', w)
               else
                 (case updateUser (u_id user)
                         (\<lambda>u. u\<lparr>u_emailVerified := True, u_status := ''ACTIVE''\<rparr>) w of
                    Inl e \<Rightarrow> (Inl e, w)
                  | Inr w1 \<Rightarrow>
                      (Inr ''Email verified successfully'',
                       createAuditLog
                         \<lparr>a_userId = u_id user, a_action = ''EMAIL_VERIFIED'',
                          a_resourceType = ''USER'', a_resourceId = u_id user,
                          a_details = [], a_ipAddress = c_ip ctx,
                          a_userAgent = c_userAgent ctx\<rparr> w1))))"

subsection \<open>The authentication middleware\<close>

record ReqUser =
  ru_id :: nat
  ru_email :: string
  ru_role :: string
  ru_status :: string

text \<open>
  \<open>header\<close> is what \<^verbatim>\<open>req.header('Authorization')?.replace('Bearer ', '')\<close> yields:
  \<open>None\<close> without the header, \<open>Opaque []\<close> for the empty string (both falsy). The
  middleware verifies with \<^verbatim>\<open>process.env.JWT_SECRET\<close>, the variable the token service
  reads its access secret from, and passes the library's own errors on.
\<close>

definition authenticate :: "AuthService \<Rightarrow> int \<Rightarrow> jwt option \<Rightarrow> World \<Rightarrow> error + ReqUser" where
  "authenticate svc now header w =
     (case header of
        None \<Rightarrow> Inl (createError ''Access token required'' 401)
      | Some token \<Rightarrow>
          if token = Opaque [] then Inl (createError ''Access token required'' 401)
          else
            (case jwt_verify token (jwtSecret svc) now of
               Inl e \<Rightarrow> Inl e
             | Inr decoded \<Rightarrow>
                 (case findUserById w (p_userId decoded) of
                    None \<Rightarrow> Inl (createError ''User not found'' 401)
                  | Some user \<Rightarrow>
                      if u_status user \<noteq> ''active'' then Inl (createError ''Account is not active'' 401)
                      else if \<not> u_emailVerified user then Inl (createError ''Email not verified'' 401)
                      else Inr \<lparr>ru_id = u_id user, ru_email = u_email user,
                                ru_role = u_role user, ru_status = u_status user\<rparr>)))"

subsection \<open>Numbers\<close>

text \<open>
  The runtime's numbers are IEEE 754 double-precision values. A finite one is the
  rational it denotes; the two zeros are one value, as the sign of zero does not show
  in a JSON response.
\<close>

datatype jsnum = Fin rat | PosInf | NegInf | NaN

definition pow2 :: "int \<Rightarrow> rat" where
  "pow2 e = (if 0 \<le> e then 2 ^ nat e else 1 / 2 ^ nat (- e))"

text \<open>The binary exponent of a number other than zero: \<open>2^e \<le> |x| < 2^(e+1)\<close>.\<close>

definition ilog2 :: "rat \<Rightarrow> int" where
  "ilog2 x = (if 1 \<le> \<bar>x\<bar> then bitlen \<lfloor>\<bar>x\<bar>\<rfloor> - 1 else - bitlen (\<lceil>1 / \<bar>x\<bar>\<rceil> - 1))"

definition round_half_even :: "rat \<Rightarrow> int" where
  "round_half_even x =
     (let f = \<lfloor>x\<rfloor>; d = x - of_int f
      in if d < 1 / 2 then f else if 1 / 2 < d then f + 1 else if even f then f else f + 1)"

text \<open>
  \<open>fl x\<close> is the double nearest to the real number \<open>x\<close>, a tie going to the even
  significand: 53 significant bits, the exponent not below \<open>-1022\<close> (below it the
  spacing stays \<open>2^-1074\<close>), and an infinity once the rounded magnitude reaches
  \<open>2^1024\<close>. It is how a number written in a request body is read, and how the
  exact result of every arithmetic operation is rounded.
\<close>

definition fl :: "rat \<Rightarrow> jsnum" where
  "fl x =
     (if x = 0 then Fin 0
      else
        (let e = max (ilog2 x) (- 1022);
             q = pow2 (e - 52);
             y = of_int (round_half_even (\<bar>x\<bar> / q)) * q
         in if pow2 1024 \<le> y then (if 0 < x then PosInf else NegInf) else Fin (sgn x * y)))"

text \<open>The operators \<^verbatim>\<open>*\<close> and \<^verbatim>\<open>+\<close> on numbers.\<close>

definition js_sign :: "jsnum \<Rightarrow> int" where
  "js_sign v = (case v of Fin x \<Rightarrow> (if 0 < x then 1 else if x < 0 then - 1 else 0)
                | PosInf \<Rightarrow> 1 | NegInf \<Rightarrow> - 1 | NaN \<Rightarrow> 0)"

definition js_mul :: "jsnum \<Rightarrow> jsnum \<Rightarrow> jsnum" where
  "js_mul a b =
     (case (a, b) of
        (Fin x, Fin y) \<Rightarrow> fl (x * y)
      | _ \<Rightarrow>
          if a = NaN \<or> b = NaN \<or> js_sign a * js_sign b = 0 then NaN
          else if 0 < js_sign a * js_sign b then PosInf else NegInf)"

definition js_add :: "jsnum \<Rightarrow> jsnum \<Rightarrow> jsnum" where
  "js_add a b =
     (case (a, b) of
        (Fin x, Fin y) \<Rightarrow> fl (x + y)
      | _ \<Rightarrow>
          if a = NaN \<or> b = NaN then NaN
          else if (a = PosInf \<and> b = NegInf) \<or> (a = NegInf \<and> b = PosInf) then NaN
          else if a = PosInf \<or> b = PosInf then PosInf else NegInf)"

subsection \<open>The price calculator\<close>

text \<open>
  A JSON value as the body parser delivers it; \<open>JUndefined\<close> is a missing property
  and \<open>JNum\<close> holds a number as it is written.
\<close>

datatype json =
    JUndefined
  | JNull
  | JBool bool
  | JNum rat
  | JStr string
  | JArr "json list"
  | JObj "(string \<times> json) list"

text \<open>
  The three sizes are taken to be JSON numbers, each given as written in the body
  and read with \<open>fl\<close>; the operating system is any value.
\<close>

record PriceBody =
  cpuCores :: rat
  ramGb :: rat
  storageGb :: rat
  operatingSystem :: json

record Breakdown =
  b_cpu :: jsnum
  b_ram :: jsnum
  b_storage :: jsnum
  b_operatingSystem :: jsnum

record PriceResponse =
  totalPrice :: jsnum
  breakdown :: Breakdown

fun starts_with :: "string \<Rightarrow> string \<Rightarrow> bool" where
  "starts_with s [] = True"
| "starts_with [] (c # cs) = False"
| "starts_with (a # as) (c # cs) = (a = c \<and> starts_with as cs)"

fun str_includes :: "string \<Rightarrow> string \<Rightarrow> bool" where
  "str_includes [] needle = (needle = [])"
| "str_includes (a # as) needle = (starts_with (a # as) needle \<or> str_includes as needle)"

text \<open>
  \<^verbatim>\<open>v.includes(needle)\<close>: the substring test on a string, membership on an array, a
  \<^verbatim>\<open>TypeError\<close> on every other value (no such property, or reading a property of
  \<^verbatim>\<open>undefined\<close> or \<^verbatim>\<open>null\<close>).
\<close>

definition js_includes :: "json \<Rightarrow> string \<Rightarrow> error + bool" where
  "js_includes v needle =
     (case v of
        JStr s \<Rightarrow> Inr (str_includes s needle)
      | JArr xs \<Rightarrow> Inr (List.member xs (JStr needle))
      | JUndefined \<Rightarrow> Inl (TypeError ''Cannot read properties of undefined (reading includes)'')
      | JNull \<Rightarrow> Inl (TypeError ''Cannot read properties of null (reading includes)'')
      | _ \<Rightarrow> Inl (TypeError ''operatingSystem.includes is not a function''))"

text \<open>
  \<^verbatim>\<open>Number(x.toFixed(2))\<close>. \<^verbatim>\<open>toFixed\<close> prints the multiple of 1/100 nearest to the
  exact value of the double, the larger one on a tie of the magnitude, and
  \<^verbatim>\<open>Number\<close> reads that decimal back as a double; from \<open>10^21\<close> on, and for an
  infinity or \<^verbatim>\<open>NaN\<close>, the number is printed and read back as it is.
\<close>

definition toFixed2 :: "jsnum \<Rightarrow> jsnum" where
  "toFixed2 v =
     (case v of
        Fin x \<Rightarrow>
          if 10 ^ 21 \<le> \<bar>x\<bar> then Fin x
          else fl (sgn x * of_int \<lfloor>\<bar>x\<bar> * 100 + 1 / 2\<rfloor> / 100)
      | _ \<Rightarrow> v)"

text \<open>The four terms of the handler, in the order it computes them.\<close>

definition cpuPrice :: "PriceBody \<Rightarrow> jsnum" where
  "cpuPrice body = js_mul (fl (cpuCores body)) (Fin 5)"

definition ramPrice :: "PriceBody \<Rightarrow> jsnum" where
  "ramPrice body = js_mul (fl (ramGb body)) (Fin 4)"

definition storagePrice :: "PriceBody \<Rightarrow> jsnum" where
  "storagePrice body = js_mul (fl (storageGb body)) (fl (1 / 10))"

definition osPrice :: "bool \<Rightarrow> jsnum" where
  "osPrice windows = (if windows then Fin 15 else Fin 0)"

definition calculatePrice :: "PriceBody \<Rightarrow> error + PriceResponse" where
  "calculatePrice body =
     (case js_includes (operatingSystem body) ''Windows'' of
        Inl e \<Rightarrow> Inl e
      | Inr windows \<Rightarrow>
          (let total = js_add (js_add (js_add (cpuPrice body) (ramPrice body)) (storagePrice body))
                         (osPrice windows)
           in Inr \<lparr>totalPrice = toFixed2 total,
                   breakdown = \<lparr>b_cpu = cpuPrice body, b_ram = ramPrice body,
                                b_storage = storagePrice body,
                                b_operatingSystem = osPrice windows\<rparr>\<rparr>))"

subsection \<open>Predicates and reference values for the statements\<close>

text \<open>
  The guard of \<^verbatim>\<open>refreshSession\<close>, \<^verbatim>\<open>!session || session.refreshExpiresAt < new Date()\<close>,
  as a predicate on the state.
\<close>

definition sessionGone :: "World \<Rightarrow> jwt \<Rightarrow> int \<Rightarrow> bool" where
  "sessionGone w t now =
     (case findSessionByRefreshToken w t of None \<Rightarrow> True | Some s \<Rightarrow> s_refreshExpiresAt s < now)"

text \<open>A code the verifier can match at all: six characters that parse as a number.\<close>

definition wellFormedCode :: "string \<Rightarrow> bool" where
  "wellFormedCode code = (length code = 6 \<and> parseInt10 code \<noteq> None)"


subsection \<open>Example data\<close>

text \<open>
  A service with the default life times, one user, and the tokens and the session
  row that a login at millisecond 5000 produces for that user.
\<close>

definition svc0 :: AuthService where
  "svc0 = \<lparr>jwtSecret = ''access-secret'', jwtRefreshSecret = ''refresh-secret'',
            jwtExpiresIn = ''15m'', jwtRefreshExpiresIn = ''7d''\<rparr>"

definition payload0 :: JWTPayload where
  "payload0 = \<lparr>p_userId = 1, p_email = ''a@x.com'', p_role = ''CUSTOMER''\<rparr>"

definition access0 :: jwt where
  "access0 = Jwt payload0 ''access-secret'' 5 905"

definition refresh0 :: jwt where
  "refresh0 = Jwt payload0 ''refresh-secret'' 5 604805"

definition tokens0 :: AuthTokens where
  "tokens0 = \<lparr>accessToken = access0, refreshToken = refresh0\<rparr>"

definition user0 :: "string \<Rightarrow> bool \<Rightarrow> bool \<Rightarrow> User" where
  "user0 status verified twoFactor =
     \<lparr>u_id = 1, u_email = ''a@x.com'', u_passwordHash = Bcrypt ''Passw0rd!'',
      u_firstName = ''Ada'', u_lastName = ''Byron'', u_phoneNumber = None,
      u_role = ''CUSTOMER'', u_status = status, u_emailVerified = verified,
      u_twoFactorEnabled = twoFactor,
      u_twoFactorSecret = (if twoFactor then Some ''JBSWY3DPEHPK3PXP'' else None),
      u_lastLoginAt = None, u_createdAt = 0\<rparr>"

definition world0 :: "User \<Rightarrow> World" where
  "world0 u = \<lparr>users = [u], sessions = [], auditLogs = [], outbox = [], nextId = 2\<rparr>"

definition ctx0 :: "int \<Rightarrow> Ctx" where
  "ctx0 t = \<lparr>c_now = t, c_ip = Some ''10.0.0.1'', c_userAgent = Some ''curl'', c_mailUp = True\<rparr>"

definition loginBody0 :: LoginBody where
  "loginBody0 = \<lparr>l_email = ''a@x.com'', l_password = ''Passw0rd!'', l_rememberMe = None\<rparr>"

definition session0 :: Session where
  "session0 = \<lparr>s_id = 2, s_userId = 1, s_token = access0, s_refreshToken = refresh0,
      s_expiresAt = 905000, s_refreshExpiresAt = 604805000,
      s_ipAddress = Some ''10.0.0.1'', s_userAgent = Some ''curl''\<rparr>"

definition loginAudit0 :: AuditLog where
  "loginAudit0 = \<lparr>a_userId = 1, a_action = ''USER_LOGIN'', a_resourceType = ''USER'',
      a_resourceId = 1, a_details = [(''email'', ''a@x.com'')],
      a_ipAddress = Some ''10.0.0.1'', a_userAgent = Some ''curl''\<rparr>"

text \<open>The state after that login.\<close>

definition loggedIn0 :: "User \<Rightarrow> World" where
  "loggedIn0 u = \<lparr>users = [u\<lparr>u_lastLoginAt := Some 5000\<rparr>], sessions = [session0],
      auditLogs = [loginAudit0], outbox = [], nextId = 3\<rparr>"

text \<open>
  A stand-in code generator for closed statements: the counter in six digits for
  the first six time steps, and one other code elsewhere.
\<close>

definition demo_hotp :: "string \<Rightarrow> int \<Rightarrow> string" where
  "demo_hotp secret counter =
     (if counter = 0 then ''000000'' else if counter = 1 then ''000001''
      else if counter = 2 then ''000002'' else if counter = 3 then ''000003''
      else if counter = 4 then ''000004'' else if counter = 5 then ''000005''
      else ''999999'')"


section \<open>Properties\<close>

lemmas parse_defs = parseTimeToMs_def parseInt_def parseInt_radix_def strip_sign_def is_ws_def
  is_digit_in_def digit_of_def digits_value_def ms_timespan_def all_digits_def

subsection \<open>Evaluating the example\<close>

lemma generateTokens_example: "generateTokens svc0 5000 payload0 = Inr tokens0"
  by (simp add: generateTokens_def jwt_sign_def svc0_def tokens0_def access0_def refresh0_def
      parse_defs)

lemma storeSession_example:
  "storeSession svc0 5000 1 tokens0 (Some ''10.0.0.1'') (Some ''curl'') (world0 u)
     = Inr ((world0 u)\<lparr>sessions := [session0], nextId := 3\<rparr>)"
  by (simp add: storeSession_def createSession_def findSessionByRefreshToken_def svc0_def
      tokens0_def world0_def session0_def parse_defs)

lemma login_example:
  assumes "st \<noteq> ''SUSPENDED''" "st \<noteq> ''TERMINATED''"
  shows "login svc0 (ctx0 5000) loginBody0 (world0 (user0 st v tf)) =
    (Inr (if tf
          then \<lparr>lr_message = ''Login successful. Please enter your 2FA code.'',
                lr_user = userResponse (user0 st v tf), lr_tokens = None,
                lr_requires2FA = True, lr_tempToken = Some access0\<rparr>
          else \<lparr>lr_message = ''Login successful'',
                lr_user = userResponse (user0 st v tf), lr_tokens = Some tokens0,
                lr_requires2FA = False, lr_tempToken = None\<rparr>),
     loggedIn0 (user0 st v tf))"
proof -
  let ?u = "user0 st v tf"
  have f: "findUserByEmail (world0 ?u) (l_email loginBody0) = Some ?u"
    by (simp add: findUserByEmail_def world0_def user0_def loginBody0_def)
  have c: "comparePassword (l_password loginBody0) (u_passwordHash ?u)"
    by (simp add: comparePassword_def user0_def loginBody0_def)
  have g: "generateTokens svc0 (c_now (ctx0 5000))
             \<lparr>p_userId = u_id ?u, p_email = u_email ?u, p_role = u_role ?u\<rparr> = Inr tokens0"
    using generateTokens_example by (simp add: ctx0_def user0_def payload0_def)
  have s: "storeSession svc0 (c_now (ctx0 5000)) (u_id ?u) tokens0 (c_ip (ctx0 5000))
             (c_userAgent (ctx0 5000)) (world0 ?u)
           = Inr ((world0 ?u)\<lparr>sessions := [session0], nextId := 3\<rparr>)"
    using storeSession_example[of ?u] by (simp add: ctx0_def user0_def)
  have u: "updateUser (u_id ?u) f ((world0 ?u)\<lparr>sessions := [session0], nextId := 3\<rparr>)
           = Inr ((world0 (f ?u))\<lparr>sessions := [session0], nextId := 3\<rparr>)" for f
    by (simp add: updateUser_def findUserById_def world0_def)
  show ?thesis
    unfolding login_def f option.case using c assms
    apply (simp only: g s u sum.case if_False if_True not_True_eq_False not_not)
    apply (simp add: user0_def createAuditLog_def world0_def ctx0_def loginBody0_def
        rememberMe_details_def tokens0_def loggedIn0_def loginAudit0_def)
    done
qed


subsection \<open>The errors of the building blocks\<close>

lemma parseTimeToMs_Inl:
  "parseTimeToMs s = Inl e \<Longrightarrow> e = PlainError (''Invalid time format: '' @ s)"
  unfolding parseTimeToMs_def Let_def by (simp split: if_splits)

lemma createSession_Inl:
  "createSession row w = Inl e \<Longrightarrow>
     e = PrismaError ''Unique constraint failed on the fields: (refreshToken)''"
  unfolding createSession_def by (simp split: if_splits)

lemma storeSession_Inl:
  "storeSession svc now uid toks ip ua w = Inl e \<Longrightarrow>
     (\<exists>m. e = PlainError m) \<or> (\<exists>m. e = PrismaError m)"
  unfolding storeSession_def
  by (auto split: sum.splits option.splits dest: parseTimeToMs_Inl createSession_Inl)

lemma jwt_sign_Inl: "jwt_sign p k ttl now = Inl e \<Longrightarrow> \<exists>m. e = PlainError m"
  unfolding jwt_sign_def by (auto split: if_splits option.splits)

lemma generateTokens_Inl: "generateTokens svc now p = Inl e \<Longrightarrow> \<exists>m. e = PlainError m"
  unfolding generateTokens_def by (auto split: sum.splits dest: jwt_sign_Inl)

lemma verifyRefreshToken_Inl:
  "verifyRefreshToken svc now t = Inl e \<Longrightarrow>
     e = createError ''Refresh token expired'' 401 \<or> e = createError ''Invalid refresh token'' 401"
  unfolding verifyRefreshToken_def jwt_verify_def
  by (auto split: sum.splits jwt.splits if_splits error.splits)

lemma updateUser_Inl:
  "updateUser i f w = Inl e \<Longrightarrow> e = PrismaError ''Record to update not found''"
  unfolding updateUser_def by (simp split: if_splits)

subsection \<open>Login and account status\<close>

lemma login_403_only_by_status:
  assumes "findUserByEmail w (l_email body) = Some user"
    and "fst (login svc ctx body w) = Inl (createError m 403)"
  shows "u_status user = ''SUSPENDED'' \<or> u_status user = ''TERMINATED''"
proof (rule ccontr)
  assume n: "\<not> (u_status user = ''SUSPENDED'' \<or> u_status user = ''TERMINATED'')"
  have "fst (login svc ctx body w) \<noteq> Inl (createError m 403)"
    using assms(1) n unfolding login_def createError_def Let_def
    by (auto split: sum.splits dest!: generateTokens_Inl storeSession_Inl updateUser_Inl)
  then show False using assms(2) by simp
qed

text \<open>
  C1, as amended. Login with valid credentials is refused with a 403 error when the
  account is SUSPENDED or TERMINATED: no token is issued and the database is left as
  it was. No other status makes login answer 403.
\<close>

theorem login_refuses_suspended_or_terminated:
  assumes "findUserByEmail w (l_email body) = Some user"
    and "comparePassword (l_password body) (u_passwordHash user)"
  shows "(u_status user = ''SUSPENDED'' \<or> u_status user = ''TERMINATED''
           \<longrightarrow> login svc ctx body w =
                 (Inl (createError (if u_status user = ''SUSPENDED''
                                    then ''Account has been suspended''
                                    else ''Account has been terminated'') 403), w))
       \<and> (fst (login svc ctx body w) = Inl (createError m 403)
           \<longrightarrow> u_status user = ''SUSPENDED'' \<or> u_status user = ''TERMINATED'')"
  using assms login_403_only_by_status [of w body user svc ctx m]
  by (auto simp: login_def)

theorem login_refuses_suspended_witness:
  "findUserByEmail (world0 (user0 ''SUSPENDED'' True False)) (l_email loginBody0)
     = Some (user0 ''SUSPENDED'' True False)
   \<and> comparePassword (l_password loginBody0) (u_passwordHash (user0 ''SUSPENDED'' True False))
   \<and> u_status (user0 ''SUSPENDED'' True False) = ''SUSPENDED''
   \<and> login svc0 (ctx0 5000) loginBody0 (world0 (user0 ''SUSPENDED'' True False))
       = (Inl (createError ''Account has been suspended'' 403),
          world0 (user0 ''SUSPENDED'' True False))"
proof -
  have f: "findUserByEmail (world0 (user0 ''SUSPENDED'' True False)) (l_email loginBody0)
     = Some (user0 ''SUSPENDED'' True False)"
    by (simp add: findUserByEmail_def world0_def user0_def loginBody0_def)
  have c: "comparePassword (l_password loginBody0) (u_passwordHash (user0 ''SUSPENDED'' True False))"
    by (simp add: comparePassword_def user0_def loginBody0_def)
  have s: "u_status (user0 ''SUSPENDED'' True False) = ''SUSPENDED''"
    by (simp add: user0_def)
  show ?thesis
    using login_refuses_suspended_or_terminated [OF f c, of svc0 "ctx0 5000"] f c s by simp
qed

text \<open>
  The claim as stated fails: an account that is still PENDING logs in with the right
  password, receives an access and a refresh token, and gets a session row.
\<close>

theorem login_pending_account_issues_tokens:
  "u_status (user0 ''PENDING'' False False) \<noteq> ''ACTIVE''
   \<and> fst (login svc0 (ctx0 5000) loginBody0 (world0 (user0 ''PENDING'' False False)))
       = Inr \<lparr>lr_message = ''Login successful'',
              lr_user = userResponse (user0 ''PENDING'' False False),
              lr_tokens = Some tokens0, lr_requires2FA = False, lr_tempToken = None\<rparr>
   \<and> sessions (snd (login svc0 (ctx0 5000) loginBody0 (world0 (user0 ''PENDING'' False False))))
       = [session0]"
  by (simp add: login_example loggedIn0_def) (simp add: user0_def)

text \<open>
  The second-factor step reads no status at all: with a valid temporary token and a
  valid code it issues tokens to a suspended account.
\<close>

lemma verify2FA_ignores_status:
  assumes "verifyAccessToken svc (c_now ctx) (v_tempToken body) = Inr payload"
    and "findUserById w (p_userId payload) = Some user"
    and "u_twoFactorSecret user = Some secret" "secret \<noteq> []"
    and "verify2FAToken hotp secret (v_token body) (c_now ctx)"
    and "generateTokens svc (c_now ctx)
           \<lparr>p_userId = u_id user, p_email = u_email user, p_role = u_role user\<rparr> = Inr tokens"
    and "storeSession svc (c_now ctx) (u_id user) tokens (c_ip ctx) (c_userAgent ctx) w = Inr w1"
  shows "fst (verify2FA hotp svc ctx body w) = Inr (user, tokens)"
  using assms by (simp add: verify2FA_def)

subsection \<open>The middleware\<close>

text \<open>
  C2, the input on which the code departs from the claim. The user is ACTIVE, the
  email is verified and the bearer token is a valid access token, yet the middleware
  answers 401: it compares the status with the lower-case string \<^verbatim>\<open>'active'\<close>, which
  no account carries.
\<close>

theorem authenticate_rejects_ACTIVE_user:
  "authenticate svc0 6000 (Some access0) (world0 (user0 ''ACTIVE'' True False))
     = Inl (createError ''Account is not active'' 401)"
  by (simp add: authenticate_def jwt_verify_def access0_def svc0_def findUserById_def
      world0_def user0_def payload0_def)

lemma authenticate_passes_only_lowercase:
  "authenticate svc now header w = Inr ru \<Longrightarrow> ru_status ru = ''active''"
  unfolding authenticate_def
  by (auto split: option.splits if_splits sum.splits)

subsection \<open>Login with a second factor\<close>

text \<open>
  C4, the input on which the code departs from the claim. A login with valid
  credentials by a user with two-factor authentication enabled answers
  \<^verbatim>\<open>requires2FA: true\<close> with a temporary token, and has by then stored a session
  row for that token and its refresh token.
\<close>

theorem login_2fa_persists_session:
  "sessions (world0 (user0 ''ACTIVE'' True True)) = []
   \<and> fst (login svc0 (ctx0 5000) loginBody0 (world0 (user0 ''ACTIVE'' True True)))
       = Inr \<lparr>lr_message = ''Login successful. Please enter your 2FA code.'',
              lr_user = userResponse (user0 ''ACTIVE'' True True), lr_tokens = None,
              lr_requires2FA = True, lr_tempToken = Some access0\<rparr>
   \<and> sessions (snd (login svc0 (ctx0 5000) loginBody0 (world0 (user0 ''ACTIVE'' True True))))
       = [session0]
   \<and> s_token session0 = access0"
  by (simp add: login_example loggedIn0_def) (simp add: world0_def session0_def)

subsection \<open>Access and refresh tokens do not cross\<close>

text \<open>
  C5. When the two secrets differ, the refresh token that \<^verbatim>\<open>generateTokens\<close> returns is
  rejected by \<^verbatim>\<open>verifyAccessToken\<close> with the error for an invalid access token, at any
  time of verification.
\<close>

theorem refresh_token_rejected_as_access_token:
  assumes "jwtSecret svc \<noteq> jwtRefreshSecret svc"
    and "generateTokens svc t payload = Inr tokens"
  shows "verifyAccessToken svc t' (refreshToken tokens)
           = Inl (createError ''Invalid access token'' 401)"
  using assms
  by (auto simp: generateTokens_def jwt_sign_def verifyAccessToken_def jwt_verify_def
      split: if_splits option.splits sum.splits)

theorem refresh_token_rejected_witness:
  "jwtSecret svc0 \<noteq> jwtRefreshSecret svc0
   \<and> generateTokens svc0 5000 payload0 = Inr tokens0
   \<and> verifyAccessToken svc0 6000 (refreshToken tokens0)
       = Inl (createError ''Invalid access token'' 401)"
  using refresh_token_rejected_as_access_token [of svc0 5000 payload0 tokens0 6000]
    generateTokens_example
  by (simp add: svc0_def)

subsection \<open>Registration\<close>

text \<open>
  C8. A registration whose email belongs to an existing user fails with the 409
  conflict error, and the state is returned as it was: no user row, no mail, no
  audit entry is added, and no row is changed.
\<close>

theorem register_duplicate_email_conflict:
  assumes "findUserByEmail w (r_email body) = Some u"
  shows "register svc ctx body w
           = (Inl (createError ''A user with this email already exists'' 409), w)"
  using assms by (simp add: register_def)

theorem register_duplicate_email_witness:
  "findUserByEmail (world0 (user0 ''ACTIVE'' True False))
       (r_email \<lparr>r_email = ''a@x.com'', r_password = ''another-pw'', r_firstName = ''Eve'',
                 r_lastName = ''Moneypenny'', r_phoneNumber = None\<rparr>)
     = Some (user0 ''ACTIVE'' True False)
   \<and> register svc0 (ctx0 5000)
       \<lparr>r_email = ''a@x.com'', r_password = ''another-pw'', r_firstName = ''Eve'',
        r_lastName = ''Moneypenny'', r_phoneNumber = None\<rparr>
       (world0 (user0 ''ACTIVE'' True False))
     = (Inl (createError ''A user with this email already exists'' 409),
        world0 (user0 ''ACTIVE'' True False))"
proof -
  have f: "findUserByEmail (world0 (user0 ''ACTIVE'' True False))
       (r_email \<lparr>r_email = ''a@x.com'', r_password = ''another-pw'', r_firstName = ''Eve'',
                 r_lastName = ''Moneypenny'', r_phoneNumber = None\<rparr>)
     = Some (user0 ''ACTIVE'' True False)"
    by (simp add: findUserByEmail_def world0_def user0_def)
  show ?thesis
    using register_duplicate_email_conflict [OF f, of svc0 "ctx0 5000"] f by simp
qed

subsection \<open>The price calculator is partial\<close>

text \<open>
  C10. Whatever the three sizes are, the handler throws a \<^verbatim>\<open>TypeError\<close> when the
  operating system is missing from the body, and when it is a number: the handler is
  not total on the bodies the public endpoint accepts.
\<close>

theorem calculatePrice_throws_without_string:
  "calculatePrice \<lparr>cpuCores = c, ramGb = r, storageGb = s, operatingSystem = JUndefined\<rparr>
     = Inl (TypeError ''Cannot read properties of undefined (reading includes)'')
   \<and> calculatePrice \<lparr>cpuCores = c, ramGb = r, storageGb = s, operatingSystem = JNum n\<rparr>
     = Inl (TypeError ''operatingSystem.includes is not a function'')"
  by (simp add: calculatePrice_def js_includes_def)


subsection \<open>Refreshing a session\<close>

lemma refreshSession_unverified:
  assumes "verifyRefreshToken svc now t = Inl e"
  shows "refreshSession svc now t w = (Inl e, w)"
  using assms by (simp add: refreshSession_def)

lemma refreshSession_expired_only_if:
  assumes "fst (refreshSession svc now t w) = Inl (createError ''Session expired'' 401)"
  shows "sessionGone w t now \<and> snd (refreshSession svc now t w) = w"
proof (cases "verifyRefreshToken svc now t")
  case (Inl e)
  then show ?thesis using assms verifyRefreshToken_Inl[OF Inl]
    by (auto simp: refreshSession_def createError_def)
next
  case (Inr payload)
  show ?thesis
  proof (cases "sessionGone w t now")
    case True
    then show ?thesis using Inr
      by (auto simp: refreshSession_def sessionGone_def split: option.splits)
  next
    case False
    then obtain s where s: "findSessionByRefreshToken w t = Some s" "\<not> s_refreshExpiresAt s < now"
      by (auto simp: sessionGone_def split: option.splits)
    have "fst (refreshSession svc now t w) \<noteq> Inl (createError ''Session expired'' 401)"
      using Inr s
      by (auto simp: refreshSession_def createError_def Let_def split: option.splits sum.splits
          dest!: generateTokens_Inl storeSession_Inl)
    then show ?thesis using assms by simp
  qed
qed

lemma refreshSession_expired_if:
  assumes "verifyRefreshToken svc now t = Inr payload" "sessionGone w t now"
  shows "refreshSession svc now t w = (Inl (createError ''Session expired'' 401), w)"
  using assms by (auto simp: refreshSession_def sessionGone_def split: option.splits)

lemma createSession_sessions:
  "createSession row w = Inr w' \<Longrightarrow> sessions w' = sessions w @ [row\<lparr>s_id := nextId w\<rparr>]"
  unfolding createSession_def by (auto split: if_splits)

lemma storeSession_sessions:
  assumes "storeSession svc now uid toks ip ua w = Inr w'"
  shows "\<exists>row. sessions w' = sessions w @ [row] \<and> s_refreshToken row = refreshToken toks"
  using assms unfolding storeSession_def
  by (auto split: sum.splits option.splits dest!: createSession_sessions)

lemma refreshSession_Inr:
  assumes "refreshSession svc now t w = (Inr newTokens, w')"
  shows "\<exists>payload s. verifyRefreshToken svc now t = Inr payload
     \<and> findSessionByRefreshToken w t = Some s
     \<and> storeSession svc now (p_userId payload) newTokens None None (deleteSession (s_id s) w) = Inr w'"
  using assms unfolding refreshSession_def Let_def
  by (auto split: sum.splits option.splits if_splits)

lemma refreshSession_consumes:
  assumes ok: "refreshSession svc now t w = (Inr newTokens, w')"
    and d: "distinct (map s_refreshToken (sessions w))"
    and ne: "refreshToken newTokens \<noteq> t"
  shows "findSessionByRefreshToken w' t = None"
proof -
  from refreshSession_Inr[OF ok] obtain payload :: JWTPayload and s where
    s: "findSessionByRefreshToken w t = Some s"
    and st: "storeSession svc now (p_userId payload) newTokens None None (deleteSession (s_id s) w) = Inr w'"
    by auto
  from storeSession_sessions[OF st] obtain row where
    row: "sessions w' = sessions (deleteSession (s_id s) w) @ [row]"
      "s_refreshToken row = refreshToken newTokens"
    by auto
  have sin: "s \<in> set (sessions w)" "s_refreshToken s = t"
    using s by (auto simp: findSessionByRefreshToken_def find_Some_iff)
  have uniq: "x = s" if "x \<in> set (sessions w)" "s_refreshToken x = t" for x
    using d sin that by (auto simp: distinct_map inj_on_def)
  have "find (\<lambda>x. s_refreshToken x = t) (filter (\<lambda>x. s_id x \<noteq> s_id s) (sessions w)) = None"
    using uniq by (auto simp: find_None_iff)
  then show ?thesis using row ne
    by (auto simp: findSessionByRefreshToken_def deleteSession_def find_None_iff)
qed

text \<open>A refresh of the example session, at any time before the token expires.\<close>

lemma refreshSession_example:
  assumes "now div 1000 < 604805" and "now \<le> s_refreshExpiresAt row"
    and "s_refreshToken row = refresh0" and "s_userId row = 1"
    and "u_id u = 1" and "u_status u = ''ACTIVE''"
    and "w = \<lparr>users = [u], sessions = [row], auditLogs = al, outbox = ob, nextId = n\<rparr>"
  shows "refreshSession svc0 now refresh0 w =
    (Inr \<lparr>accessToken = Jwt payload0 ''access-secret'' (now div 1000) (now div 1000 + 900),
          refreshToken = Jwt payload0 ''refresh-secret'' (now div 1000) (now div 1000 + 604800)\<rparr>,
     w\<lparr>sessions :=
          [\<lparr>s_id = n, s_userId = 1,
            s_token = Jwt payload0 ''access-secret'' (now div 1000) (now div 1000 + 900),
            s_refreshToken = Jwt payload0 ''refresh-secret'' (now div 1000) (now div 1000 + 604800),
            s_expiresAt = now + 900000, s_refreshExpiresAt = now + 604800000,
            s_ipAddress = None, s_userAgent = None\<rparr>],
        nextId := Suc n\<rparr>)"
proof -
  have v: "verifyRefreshToken svc0 now refresh0 = Inr payload0"
    using assms(1) by (simp add: verifyRefreshToken_def jwt_verify_def refresh0_def svc0_def)
  have f: "findSessionByRefreshToken w refresh0 = Some row"
    by (simp add: assms(3,7) findSessionByRefreshToken_def)
  have u: "findUserById w (s_userId row) = Some u"
    by (simp add: assms(4,5,7) findUserById_def)
  have g: "generateTokens svc0 now
      \<lparr>p_userId = p_userId payload0, p_email = p_email payload0, p_role = p_role payload0\<rparr>
     = Inr \<lparr>accessToken = Jwt payload0 ''access-secret'' (now div 1000) (now div 1000 + 900),
          refreshToken = Jwt payload0 ''refresh-secret'' (now div 1000) (now div 1000 + 604800)\<rparr>"
    by (simp add: generateTokens_def jwt_sign_def svc0_def payload0_def parse_defs)
  have d: "deleteSession (s_id row) w = w\<lparr>sessions := []\<rparr>"
    by (simp add: assms(7) deleteSession_def)
  have s: "storeSession svc0 now (p_userId payload0) toks None None (w\<lparr>sessions := []\<rparr>)
     = Inr (w\<lparr>sessions := [\<lparr>s_id = n, s_userId = 1, s_token = accessToken toks,
            s_refreshToken = refreshToken toks,
            s_expiresAt = now + 900000, s_refreshExpiresAt = now + 604800000,
            s_ipAddress = None, s_userAgent = None\<rparr>], nextId := Suc n\<rparr>)" for toks
    by (simp add: assms(7) storeSession_def createSession_def findSessionByRefreshToken_def
        svc0_def payload0_def parse_defs)
  show ?thesis
    unfolding refreshSession_def v sum.case f option.case u Let_def d g s
    using assms(2,6) by simp
qed

text \<open>
  C3, as amended. A failure with the session-expired error happens only when no
  session row holds the presented refresh token or the row's \<open>refreshExpiresAt\<close> lies
  in the past, and it leaves the state as it was. For a token that passes
  \<^verbatim>\<open>verifyRefreshToken\<close> that condition is also sufficient. After a successful refresh
  no row holds the presented token any more, provided the refresh tokens of the rows
  were distinct and the new refresh token differs from the presented one. A token
  that fails \<^verbatim>\<open>verifyRefreshToken\<close> is rejected with the error of that check, which is
  the one for an expired or the one for an invalid refresh token, and the state is
  left as it was.
\<close>

theorem refreshSession_session_expired:
  "(fst (refreshSession svc now t w) = Inl (createError ''Session expired'' 401)
      \<longrightarrow> sessionGone w t now \<and> snd (refreshSession svc now t w) = w)
   \<and> (verifyRefreshToken svc now t = Inr payload \<and> sessionGone w t now
      \<longrightarrow> refreshSession svc now t w = (Inl (createError ''Session expired'' 401), w))
   \<and> (refreshSession svc now t w = (Inr newTokens, w')
        \<and> distinct (map s_refreshToken (sessions w)) \<and> refreshToken newTokens \<noteq> t
      \<longrightarrow> findSessionByRefreshToken w' t = None)
   \<and> (verifyRefreshToken svc now t = Inl e
      \<longrightarrow> refreshSession svc now t w = (Inl e, w)
          \<and> (e = createError ''Refresh token expired'' 401
               \<or> e = createError ''Invalid refresh token'' 401))"
  using refreshSession_expired_only_if [of svc now t w]
    refreshSession_expired_if [of svc now t payload w]
    refreshSession_consumes [of svc now t w newTokens w']
    refreshSession_unverified [of svc now t e w]
    verifyRefreshToken_Inl [of svc now t e]
  by blast

lemma loggedIn0_refresh_6000:
  "refreshSession svc0 6000 refresh0 (loggedIn0 (user0 ''ACTIVE'' True False)) =
    (Inr \<lparr>accessToken = Jwt payload0 ''access-secret'' 6 906,
          refreshToken = Jwt payload0 ''refresh-secret'' 6 604806\<rparr>,
     (loggedIn0 (user0 ''ACTIVE'' True False))\<lparr>sessions :=
          [\<lparr>s_id = 3, s_userId = 1,
            s_token = Jwt payload0 ''access-secret'' 6 906,
            s_refreshToken = Jwt payload0 ''refresh-secret'' 6 604806,
            s_expiresAt = 906000, s_refreshExpiresAt = 604806000,
            s_ipAddress = None, s_userAgent = None\<rparr>],
        nextId := 4\<rparr>)"
  using refreshSession_example [of 6000 session0 "(user0 ''ACTIVE'' True False)\<lparr>u_lastLoginAt := Some 5000\<rparr>"
      "loggedIn0 (user0 ''ACTIVE'' True False)" "[loginAudit0]" "[]" 3]
  by (simp add: loggedIn0_def user0_def session0_def)

theorem refreshSession_session_expired_witness:
  "verifyRefreshToken svc0 6000 refresh0 = Inr payload0
   \<and> sessionGone (world0 (user0 ''ACTIVE'' True False)) refresh0 6000
   \<and> refreshSession svc0 6000 refresh0 (world0 (user0 ''ACTIVE'' True False))
       = (Inl (createError ''Session expired'' 401), world0 (user0 ''ACTIVE'' True False))
   \<and> distinct (map s_refreshToken (sessions (loggedIn0 (user0 ''ACTIVE'' True False))))
   \<and> fst (refreshSession svc0 6000 refresh0 (loggedIn0 (user0 ''ACTIVE'' True False)))
       = Inr \<lparr>accessToken = Jwt payload0 ''access-secret'' 6 906,
              refreshToken = Jwt payload0 ''refresh-secret'' 6 604806\<rparr>
   \<and> Jwt payload0 ''refresh-secret'' 6 604806 \<noteq> refresh0
   \<and> findSessionByRefreshToken
         (snd (refreshSession svc0 6000 refresh0 (loggedIn0 (user0 ''ACTIVE'' True False))))
         refresh0 = None
   \<and> verifyRefreshToken svc0 6000 (Opaque ''junk'')
       = Inl (createError ''Invalid refresh token'' 401)
   \<and> refreshSession svc0 6000 (Opaque ''junk'') (loggedIn0 (user0 ''ACTIVE'' True False))
       = (Inl (createError ''Invalid refresh token'' 401),
          loggedIn0 (user0 ''ACTIVE'' True False))"
proof -
  have v: "verifyRefreshToken svc0 6000 refresh0 = Inr payload0"
    by (simp add: verifyRefreshToken_def jwt_verify_def refresh0_def svc0_def)
  have g: "sessionGone (world0 (user0 ''ACTIVE'' True False)) refresh0 6000"
    by (simp add: sessionGone_def findSessionByRefreshToken_def world0_def)
  have d: "distinct (map s_refreshToken (sessions (loggedIn0 (user0 ''ACTIVE'' True False))))"
    by (simp add: loggedIn0_def)
  have ne: "Jwt payload0 ''refresh-secret'' 6 604806 \<noteq> refresh0"
    by (simp add: refresh0_def)
  note a = refreshSession_session_expired
      [of svc0 6000 refresh0 "world0 (user0 ''ACTIVE'' True False)" payload0]
  note b = refreshSession_session_expired
      [of svc0 6000 refresh0 "loggedIn0 (user0 ''ACTIVE'' True False)" payload0
        "\<lparr>accessToken = Jwt payload0 ''access-secret'' 6 906,
          refreshToken = Jwt payload0 ''refresh-secret'' 6 604806\<rparr>"
        "snd (refreshSession svc0 6000 refresh0 (loggedIn0 (user0 ''ACTIVE'' True False)))"]
  have r1: "refreshSession svc0 6000 refresh0 (world0 (user0 ''ACTIVE'' True False))
       = (Inl (createError ''Session expired'' 401), world0 (user0 ''ACTIVE'' True False))"
    using a v g by blast
  have r2: "findSessionByRefreshToken
         (snd (refreshSession svc0 6000 refresh0 (loggedIn0 (user0 ''ACTIVE'' True False))))
         refresh0 = None"
    using b d ne loggedIn0_refresh_6000 by simp
  have j: "verifyRefreshToken svc0 6000 (Opaque ''junk'')
       = Inl (createError ''Invalid refresh token'' 401)"
    by (simp add: verifyRefreshToken_def jwt_verify_def)
  note c = refreshSession_session_expired
      [of svc0 6000 "Opaque ''junk''" "loggedIn0 (user0 ''ACTIVE'' True False)" payload0
        tokens0 "loggedIn0 (user0 ''ACTIVE'' True False)" "createError ''Invalid refresh token'' 401"]
  have r3: "refreshSession svc0 6000 (Opaque ''junk'') (loggedIn0 (user0 ''ACTIVE'' True False))
       = (Inl (createError ''Invalid refresh token'' 401),
          loggedIn0 (user0 ''ACTIVE'' True False))"
    using c j by blast
  have f6: "fst (refreshSession svc0 6000 refresh0 (loggedIn0 (user0 ''ACTIVE'' True False)))
       = Inr \<lparr>accessToken = Jwt payload0 ''access-secret'' 6 906,
              refreshToken = Jwt payload0 ''refresh-secret'' 6 604806\<rparr>"
    by (simp add: loggedIn0_refresh_6000)
  show ?thesis by (intro conjI v g r1 d f6 ne r2 j r3)
qed

text \<open>
  The claim as stated fails in three ways. A string that is no token has no session
  row, and is rejected as an invalid refresh token. A session whose
  \<open>refreshExpiresAt\<close> lies in the past is rejected because the token itself has
  expired, with that error. And a refresh in the very second of the login issues the
  same refresh token again, so the consumed token is accepted a second time.
\<close>

theorem refreshSession_other_outcomes:
  "findSessionByRefreshToken (world0 (user0 ''ACTIVE'' True False)) (Opaque ''junk'') = None
   \<and> fst (refreshSession svc0 6000 (Opaque ''junk'') (world0 (user0 ''ACTIVE'' True False)))
       = Inl (createError ''Invalid refresh token'' 401)
   \<and> createError ''Invalid refresh token'' 401 \<noteq> createError ''Session expired'' 401
   \<and> findSessionByRefreshToken (loggedIn0 (user0 ''ACTIVE'' True False)) refresh0 = Some session0
   \<and> s_refreshExpiresAt session0 < 604806000
   \<and> fst (refreshSession svc0 604806000 refresh0 (loggedIn0 (user0 ''ACTIVE'' True False)))
       = Inl (createError ''Refresh token expired'' 401)
   \<and> fst (refreshSession svc0 5500 refresh0 (loggedIn0 (user0 ''ACTIVE'' True False)))
       = Inr tokens0
   \<and> fst (refreshSession svc0 5600 refresh0
            (snd (refreshSession svc0 5500 refresh0 (loggedIn0 (user0 ''ACTIVE'' True False)))))
       = Inr tokens0"
proof -
  let ?L = "loggedIn0 (user0 ''ACTIVE'' True False)"
  let ?u = "(user0 ''ACTIVE'' True False)\<lparr>u_lastLoginAt := Some 5000\<rparr>"
  have a: "fst (refreshSession svc0 6000 (Opaque ''junk'') (world0 (user0 ''ACTIVE'' True False)))
       = Inl (createError ''Invalid refresh token'' 401)"
    by (simp add: refreshSession_def verifyRefreshToken_def jwt_verify_def)
  have a0: "findSessionByRefreshToken (world0 (user0 ''ACTIVE'' True False)) (Opaque ''junk'') = None"
    by (simp add: findSessionByRefreshToken_def world0_def)
  have a1: "createError ''Invalid refresh token'' 401 \<noteq> createError ''Session expired'' 401"
    by (simp add: createError_def)
  have b0: "findSessionByRefreshToken ?L refresh0 = Some session0"
    by (simp add: findSessionByRefreshToken_def loggedIn0_def session0_def)
  have b1: "s_refreshExpiresAt session0 < 604806000"
    by (simp add: session0_def)
  have b: "fst (refreshSession svc0 604806000 refresh0 ?L)
       = Inl (createError ''Refresh token expired'' 401)"
    by (simp add: refreshSession_def verifyRefreshToken_def jwt_verify_def refresh0_def svc0_def)
  have c1: "refreshSession svc0 5500 refresh0 ?L =
     (Inr tokens0,
      ?L\<lparr>sessions := [\<lparr>s_id = 3, s_userId = 1, s_token = access0, s_refreshToken = refresh0,
            s_expiresAt = 905500, s_refreshExpiresAt = 604805500,
            s_ipAddress = None, s_userAgent = None\<rparr>], nextId := 4\<rparr>)"
    using refreshSession_example [of 5500 session0 ?u ?L "[loginAudit0]" "[]" 3]
    by (simp add: loggedIn0_def user0_def session0_def tokens0_def access0_def refresh0_def)
  have c2: "fst (refreshSession svc0 5600 refresh0
       (?L\<lparr>sessions := [\<lparr>s_id = 3, s_userId = 1, s_token = access0, s_refreshToken = refresh0,
            s_expiresAt = 905500, s_refreshExpiresAt = 604805500,
            s_ipAddress = None, s_userAgent = None\<rparr>], nextId := 4\<rparr>)) = Inr tokens0"
    using refreshSession_example [of 5600
        "\<lparr>s_id = 3, s_userId = 1, s_token = access0, s_refreshToken = refresh0,
            s_expiresAt = 905500, s_refreshExpiresAt = 604805500,
            s_ipAddress = None, s_userAgent = None\<rparr>" ?u
        "?L\<lparr>sessions := [\<lparr>s_id = 3, s_userId = 1, s_token = access0, s_refreshToken = refresh0,
            s_expiresAt = 905500, s_refreshExpiresAt = 604805500,
            s_ipAddress = None, s_userAgent = None\<rparr>], nextId := 4\<rparr>" "[loginAudit0]" "[]" 4]
    by (simp add: loggedIn0_def user0_def session0_def tokens0_def access0_def refresh0_def)
  show ?thesis
    unfolding c1 snd_conv fst_conv using a a0 a1 b0 b1 b c2 by simp
qed


subsection \<open>Email verification\<close>

lemma find_map_update:
  assumes "\<And>u. u_id (f u) = u_id u"
  shows "find (\<lambda>u. u_id u = i) (map (\<lambda>u. if u_id u = i then f u else u) xs)
       = map_option f (find (\<lambda>u. u_id u = i) xs)"
  using assms by (induction xs) auto

lemma verifyEmail_already:
  assumes "verifyAccessToken svc (c_now ctx) token = Inr payload"
    and "findUserById w (p_userId payload) = Some user"
    and "u_emailVerified user"
  shows "verifyEmail svc ctx token w = (Inr ''Email already verified'', w)"
  using assms by (simp add: verifyEmail_def)

lemma verifyAccessToken_payload:
  "verifyAccessToken svc now token = Inr p \<Longrightarrow> verifyAccessToken svc now' token = Inr p'
     \<Longrightarrow> p' = p"
  unfolding verifyAccessToken_def jwt_verify_def
  by (auto split: sum.splits jwt.splits if_splits error.splits)

lemma verifyEmail_Inr:
  assumes "verifyEmail svc ctx token w = (Inr msg, w1)"
  shows "\<exists>payload user. verifyAccessToken svc (c_now ctx) token = Inr payload
     \<and> findUserById w (p_userId payload) = Some user
     \<and> ((u_emailVerified user \<and> w1 = w) \<or>
         users w1 = map (\<lambda>u. if u_id u = u_id user
                               then u\<lparr>u_emailVerified := True, u_status := ''ACTIVE''\<rparr> else u)
                        (users w))"
  using assms unfolding verifyEmail_def
  by (auto simp: updateUser_def createAuditLog_def split: sum.splits option.splits if_splits)

lemma verifyEmail_twice:
  assumes first: "verifyEmail svc ctx token w = (Inr msg, w1)"
    and valid: "verifyAccessToken svc (c_now ctx') token = Inr payload'"
  shows "verifyEmail svc ctx' token w1 = (Inr ''Email already verified'', w1)"
proof -
  from verifyEmail_Inr[OF first] obtain payload :: JWTPayload and user :: User where
    p: "verifyAccessToken svc (c_now ctx) token = Inr payload"
    and u: "findUserById w (p_userId payload) = Some user"
    and c: "(u_emailVerified user \<and> w1 = w) \<or>
        users w1 = map (\<lambda>u. if u_id u = u_id user
                              then u\<lparr>u_emailVerified := True, u_status := ''ACTIVE''\<rparr> else u)
                       (users w)"
    by auto
  have pp: "payload' = payload" using verifyAccessToken_payload[OF p valid] .
  have uid: "u_id user = p_userId payload"
    using u by (auto simp: findUserById_def find_Some_iff)
  from c show ?thesis
  proof
    assume "u_emailVerified user \<and> w1 = w"
    then show ?thesis using verifyEmail_already[OF valid] u pp by simp
  next
    assume us: "users w1 = map (\<lambda>u. if u_id u = u_id user
                              then u\<lparr>u_emailVerified := True, u_status := ''ACTIVE''\<rparr> else u)
                       (users w)"
    have "findUserById w1 (p_userId payload)
        = Some (user\<lparr>u_emailVerified := True, u_status := ''ACTIVE''\<rparr>)"
      unfolding findUserById_def us uid
      using find_map_update[of "\<lambda>u. u\<lparr>u_emailVerified := True, u_status := ''ACTIVE''\<rparr>"
          "p_userId payload" "users w"] u
      by (simp add: findUserById_def)
    then show ?thesis using verifyEmail_already[OF valid, of w1] pp by simp
  qed
qed

text \<open>
  C9. For a user whose email is already verified, a verification call with a valid
  token of that user answers success and returns the state as it was. Hence after
  any successful verification, a further call with the same token, still valid,
  answers success and leaves the state exactly as the first call left it.
\<close>

theorem verifyEmail_idempotent:
  "(verifyAccessToken svc (c_now ctx) token = Inr payload
      \<and> findUserById w (p_userId payload) = Some user \<and> u_emailVerified user
      \<longrightarrow> verifyEmail svc ctx token w = (Inr ''Email already verified'', w))
   \<and> (verifyEmail svc ctx token w = (Inr msg, w1)
      \<and> verifyAccessToken svc (c_now ctx') token = Inr payload'
      \<longrightarrow> verifyEmail svc ctx' token w1 = (Inr ''Email already verified'', w1))"
  using verifyEmail_already [of svc ctx token payload w user]
    verifyEmail_twice [of svc ctx token w msg w1 ctx' payload']
  by blast

lemma verifyEmail_example:
  "verifyEmail svc0 (ctx0 6000) access0 (world0 (user0 ''PENDING'' False False)) =
     (Inr ''Email verified successfully'',
      \<lparr>users = [user0 ''ACTIVE'' True False], sessions = [],
       auditLogs = [\<lparr>a_userId = 1, a_action = ''EMAIL_VERIFIED'', a_resourceType = ''USER'',
                     a_resourceId = 1, a_details = [], a_ipAddress = Some ''10.0.0.1'',
                     a_userAgent = Some ''curl''\<rparr>],
       outbox = [], nextId = 2\<rparr>)"
  by (simp add: verifyEmail_def verifyAccessToken_def jwt_verify_def access0_def svc0_def
      ctx0_def findUserById_def world0_def user0_def payload0_def updateUser_def
      createAuditLog_def)

theorem verifyEmail_idempotent_witness:
  "verifyAccessToken svc0 (c_now (ctx0 7000)) access0 = Inr payload0
   \<and> findUserById (world0 (user0 ''ACTIVE'' True False)) (p_userId payload0)
       = Some (user0 ''ACTIVE'' True False)
   \<and> u_emailVerified (user0 ''ACTIVE'' True False)
   \<and> verifyEmail svc0 (ctx0 7000) access0 (world0 (user0 ''ACTIVE'' True False))
       = (Inr ''Email already verified'', world0 (user0 ''ACTIVE'' True False))
   \<and> fst (verifyEmail svc0 (ctx0 6000) access0 (world0 (user0 ''PENDING'' False False)))
       = Inr ''Email verified successfully''
   \<and> verifyEmail svc0 (ctx0 7000) access0
         (snd (verifyEmail svc0 (ctx0 6000) access0 (world0 (user0 ''PENDING'' False False))))
       = (Inr ''Email already verified'',
          snd (verifyEmail svc0 (ctx0 6000) access0 (world0 (user0 ''PENDING'' False False))))"
proof -
  have v: "verifyAccessToken svc0 (c_now (ctx0 7000)) access0 = Inr payload0"
    by (simp add: verifyAccessToken_def jwt_verify_def access0_def svc0_def ctx0_def)
  have f: "findUserById (world0 (user0 ''ACTIVE'' True False)) (p_userId payload0)
       = Some (user0 ''ACTIVE'' True False)"
    by (simp add: findUserById_def world0_def user0_def payload0_def)
  have e: "u_emailVerified (user0 ''ACTIVE'' True False)"
    by (simp add: user0_def)
  have first: "verifyEmail svc0 (ctx0 6000) access0 (world0 (user0 ''PENDING'' False False))
      = (Inr ''Email verified successfully'',
         snd (verifyEmail svc0 (ctx0 6000) access0 (world0 (user0 ''PENDING'' False False))))"
    by (simp add: verifyEmail_example)
  note a = verifyEmail_idempotent
      [of svc0 "ctx0 7000" access0 payload0 "world0 (user0 ''ACTIVE'' True False)"
        "user0 ''ACTIVE'' True False"]
  note b = verifyEmail_idempotent
      [of svc0 "ctx0 6000" access0 payload0 "world0 (user0 ''PENDING'' False False)"
        "user0 ''PENDING'' False False" "''Email verified successfully''"
        "snd (verifyEmail svc0 (ctx0 6000) access0 (world0 (user0 ''PENDING'' False False)))"
        "ctx0 7000" payload0]
  have r1: "verifyEmail svc0 (ctx0 7000) access0 (world0 (user0 ''ACTIVE'' True False))
       = (Inr ''Email already verified'', world0 (user0 ''ACTIVE'' True False))"
    using a v f e by blast
  have r2: "verifyEmail svc0 (ctx0 7000) access0
         (snd (verifyEmail svc0 (ctx0 6000) access0 (world0 (user0 ''PENDING'' False False))))
       = (Inr ''Email already verified'',
          snd (verifyEmail svc0 (ctx0 6000) access0 (world0 (user0 ''PENDING'' False False))))"
    using b first v by blast
  have f1: "fst (verifyEmail svc0 (ctx0 6000) access0 (world0 (user0 ''PENDING'' False False)))
       = Inr ''Email verified successfully''"
    by (simp add: verifyEmail_example)
  show ?thesis by (intro conjI v f e r1 f1 r2)
qed


subsection \<open>The TOTP window\<close>

lemma find_upto_iff: "(find P [a..b] \<noteq> None) = (\<exists>i. a \<le> i \<and> i \<le> b \<and> P i)"
  by (auto simp: find_None_iff)

lemma window_abs: "(c - 2 \<le> i \<and> i \<le> c - 2 + (2 + 2)) = (\<bar>i - c\<bar> \<le> (2::int))"
  by linarith

lemma verify2FAToken_iff:
  "verify2FAToken hotp secret token now =
     (wellFormedCode token \<and>
      (\<exists>i. \<bar>i - totp_counter now\<bar> \<le> 2 \<and> parseInt10 (hotp secret i) = parseInt10 token))"
proof (cases "parseInt10 token")
  case None
  then show ?thesis
    by (simp add: verify2FAToken_def totp_verify_def hotp_verifyDelta_def wellFormedCode_def)
next
  case (Some v)
  have "verify2FAToken hotp secret token now =
      (length token = 6 \<and> find (\<lambda>i. parseInt10 (hotp secret i) = Some v)
          [totp_counter now - 2..totp_counter now - 2 + (2 + 2)] \<noteq> None)"
    unfolding verify2FAToken_def totp_verify_def hotp_verifyDelta_def using Some
    by (simp del: upto.simps)
  also have "\<dots> = (length token = 6 \<and>
      (\<exists>i. \<bar>i - totp_counter now\<bar> \<le> 2 \<and> parseInt10 (hotp secret i) = Some v))"
    unfolding find_upto_iff window_abs[symmetric] by (simp only: conj_assoc)
  finally show ?thesis using Some by (simp add: wellFormedCode_def)
qed

lemma counter_within:
  assumes "\<bar>t - t0\<bar> \<le> 60000"
  shows "\<bar>totp_counter t - totp_counter t0\<bar> \<le> 2"
proof -
  have "t div 30000 \<le> (t0 + 2 * 30000) div 30000"
    by (rule zdiv_mono1) (use assms in auto)
  moreover have "(t0 + 2 * 30000) div 30000 = t0 div 30000 + (2::int)"
    by simp
  moreover have "t0 div 30000 \<le> (t + 2 * 30000) div 30000"
    by (rule zdiv_mono1) (use assms in auto)
  moreover have "(t + 2 * 30000) div 30000 = t div 30000 + (2::int)"
    by simp
  ultimately show ?thesis unfolding totp_counter_def by linarith
qed

text \<open>
  C6, as amended. A well-formed code generated at \<open>t0\<close> is accepted at \<open>t\<close> whenever
  the time steps of \<open>t\<close> and \<open>t0\<close> are at most two apart; that is the case whenever
  \<open>t\<close> and \<open>t0\<close> are at most 60 seconds apart. A code that is accepted is well-formed
  and equals, as a number, the code of one of the five time steps around the step of
  \<open>t\<close>: a code matching none of them is rejected.
\<close>

theorem verify2FAToken_window:
  "(wellFormedCode (totp_generate hotp secret t0) \<and> \<bar>totp_counter t - totp_counter t0\<bar> \<le> 2
      \<longrightarrow> verify2FAToken hotp secret (totp_generate hotp secret t0) t)
   \<and> (\<bar>t - t0\<bar> \<le> 60000 \<longrightarrow> \<bar>totp_counter t - totp_counter t0\<bar> \<le> 2)
   \<and> (verify2FAToken hotp secret token t
      \<longrightarrow> wellFormedCode token \<and>
          (\<exists>i. \<bar>i - totp_counter t\<bar> \<le> 2 \<and> parseInt10 (hotp secret i) = parseInt10 token))"
proof (intro conjI impI)
  assume a: "wellFormedCode (totp_generate hotp secret t0) \<and> \<bar>totp_counter t - totp_counter t0\<bar> \<le> 2"
  then have "\<bar>totp_counter t0 - totp_counter t\<bar> \<le> 2" by linarith
  then show "verify2FAToken hotp secret (totp_generate hotp secret t0) t"
    using a unfolding verify2FAToken_iff totp_generate_def by blast
next
  assume "\<bar>t - t0\<bar> \<le> 60000"
  then show "\<bar>totp_counter t - totp_counter t0\<bar> \<le> 2" by (rule counter_within)
next
  assume "verify2FAToken hotp secret token t"
  then show "wellFormedCode token" unfolding verify2FAToken_iff by simp
next
  assume "verify2FAToken hotp secret token t"
  then show "\<exists>i. \<bar>i - totp_counter t\<bar> \<le> 2 \<and> parseInt10 (hotp secret i) = parseInt10 token"
    unfolding verify2FAToken_iff by simp
qed

lemma demo_hotp_0: "demo_hotp s 0 = ''000000''"
  by (simp add: demo_hotp_def)

lemma demo_hotp_values:
  "demo_hotp s 1 = ''000001''" "demo_hotp s 2 = ''000002''" "demo_hotp s 3 = ''000003''"
  "demo_hotp s 4 = ''000004''" "demo_hotp s 5 = ''000005''"
  by (simp_all add: demo_hotp_def)

lemma parseInt10_demo:
  "parseInt10 ''000000'' = Some 0" "parseInt10 ''000001'' = Some 1" "parseInt10 ''000002'' = Some 2"
  "parseInt10 ''000003'' = Some 3" "parseInt10 ''000004'' = Some 4" "parseInt10 ''000005'' = Some 5"
  by (simp_all add: parseInt10_def parseInt_radix_def strip_sign_def is_ws_def
      is_digit_in_def digit_of_def digits_value_def)

lemma wellFormed_demo: "wellFormedCode (totp_generate demo_hotp s 0)"
  by (simp add: wellFormedCode_def totp_generate_def totp_counter_def demo_hotp_0 parseInt10_demo)

theorem verify2FAToken_window_witness:
  "wellFormedCode (totp_generate demo_hotp ''JBSWY3DPEHPK3PXP'' 0)
   \<and> \<bar>totp_counter 60000 - totp_counter 0\<bar> \<le> 2
   \<and> \<bar>60000 - 0\<bar> \<le> (60000::int)
   \<and> verify2FAToken demo_hotp ''JBSWY3DPEHPK3PXP''
        (totp_generate demo_hotp ''JBSWY3DPEHPK3PXP'' 0) 60000
   \<and> wellFormedCode ''000000''
   \<and> parseInt10 (demo_hotp ''JBSWY3DPEHPK3PXP'' 0) = parseInt10 ''000000''"
proof -
  note w = verify2FAToken_window
      [of demo_hotp "''JBSWY3DPEHPK3PXP''" 0 60000 "totp_generate demo_hotp ''JBSWY3DPEHPK3PXP'' 0"]
  have c: "\<bar>60000 - 0\<bar> \<le> (60000::int)" by simp
  have d: "\<bar>totp_counter 60000 - totp_counter 0\<bar> \<le> 2" using w c by blast
  have a: "verify2FAToken demo_hotp ''JBSWY3DPEHPK3PXP''
        (totp_generate demo_hotp ''JBSWY3DPEHPK3PXP'' 0) 60000"
    using w wellFormed_demo d by blast
  have e: "wellFormedCode ''000000''"
    using w a by (simp add: totp_generate_def totp_counter_def demo_hotp_0)
  have p: "parseInt10 (demo_hotp ''JBSWY3DPEHPK3PXP'' 0) = parseInt10 ''000000''"
    by (simp add: demo_hotp_0)
  show ?thesis by (intro conjI wellFormed_demo d c a e p)
qed

text \<open>
  Whatever the code generator is, a well-formed code generated at time 0 is still
  accepted 89 seconds later: second 89 lies in time step 2.
\<close>

lemma verify2FAToken_after_89s:
  "wellFormedCode (totp_generate hotp secret 0)
     \<Longrightarrow> verify2FAToken hotp secret (totp_generate hotp secret 0) 89000"
  unfolding verify2FAToken_iff totp_generate_def
  by (auto simp: totp_counter_def intro!: exI[of _ 0])

text \<open>
  The claim as stated fails: 89 seconds is outside a tolerance of 60 seconds, and
  the code is accepted; one second later it is rejected.
\<close>

theorem verify2FAToken_accepts_beyond_60s:
  "\<not> \<bar>89000 - 0\<bar> \<le> (60000::int)
   \<and> verify2FAToken demo_hotp ''JBSWY3DPEHPK3PXP''
        (totp_generate demo_hotp ''JBSWY3DPEHPK3PXP'' 0) 89000
   \<and> \<not> verify2FAToken demo_hotp ''JBSWY3DPEHPK3PXP''
        (totp_generate demo_hotp ''JBSWY3DPEHPK3PXP'' 0) 90000"
proof -
  have r: "\<not> verify2FAToken demo_hotp ''JBSWY3DPEHPK3PXP''
        (totp_generate demo_hotp ''JBSWY3DPEHPK3PXP'' 0) 90000"
    by (simp add: verify2FAToken_def totp_verify_def hotp_verifyDelta_def totp_generate_def
        totp_counter_def demo_hotp_0 demo_hotp_values parseInt10_demo upto.simps)
  show ?thesis
    using verify2FAToken_after_89s [OF wellFormed_demo, of "''JBSWY3DPEHPK3PXP''"] r by simp
qed


subsection \<open>The price\<close>

lemma pow2_pos: "0 < pow2 e"
  by (simp add: pow2_def)

lemma pow2_nat: "pow2 (int n) = 2 ^ n"
  by (simp add: pow2_def)

lemma pow2_neg_nat: "pow2 (- int n) = 1 / 2 ^ n"
proof (cases "n = 0")
  case True
  then show ?thesis by (simp add: pow2_def)
next
  case False
  then have "\<not> 0 \<le> - int n" by simp
  then show ?thesis unfolding pow2_def by simp
qed

lemma pow2_add: "pow2 (a + b) = pow2 a * pow2 b"
proof -
  have "pow2 e = 2 powi e" for e
    by (simp add: pow2_def power_int_def field_simps)
  then show ?thesis by (simp add: power_int_add)
qed

lemma bitlen_eqI:
  assumes "2 ^ n \<le> x" "x < 2 ^ Suc n"
  shows "bitlen x = int n + 1"
proof -
  have pos: "0 < x" using assms(1) by (smt (verit) zero_less_power)
  from bitlen_bounds[OF pos] have b: "2 ^ nat (bitlen x - 1) \<le> x" "x < 2 ^ nat (bitlen x)"
    by auto
  have "(2::int) ^ nat (bitlen x - 1) < 2 ^ Suc n" using b(1) assms(2) by linarith
  then have u: "nat (bitlen x - 1) < Suc n"
    by (rule power_less_imp_less_exp[rotated]) simp
  have "(2::int) ^ n < 2 ^ nat (bitlen x)" using b(2) assms(1) by linarith
  then have l: "n < nat (bitlen x)"
    by (rule power_less_imp_less_exp[rotated]) simp
  show ?thesis using u l by linarith
qed


lemma ilog2_eqI:
  assumes "pow2 e \<le> \<bar>x\<bar>" "\<bar>x\<bar> < pow2 (e + 1)"
  shows "ilog2 x = e"
proof (cases "0 \<le> e")
  case True
  define n where "n = nat e"
  have e: "e = int n" using True by (simp add: n_def)
  have lo: "2 ^ n \<le> \<bar>x\<bar>" using assms(1) by (simp add: e pow2_nat)
  have "pow2 (e + 1) = 2 ^ Suc n"
    using pow2_nat[of "Suc n"] by (simp add: e add.commute)
  then have hi: "\<bar>x\<bar> < 2 ^ Suc n" using assms(2) by simp
  have one: "1 \<le> \<bar>x\<bar>"
  proof -
    have "(1::rat) \<le> 2 ^ n" by simp
    then show ?thesis using lo by linarith
  qed
  have a: "2 ^ n \<le> \<lfloor>\<bar>x\<bar>\<rfloor>"
  proof -
    have "of_int (2 ^ n) \<le> \<bar>x\<bar>" using lo by simp
    then show ?thesis by (simp only: le_floor_iff)
  qed
  have b: "\<lfloor>\<bar>x\<bar>\<rfloor> < 2 ^ Suc n"
  proof -
    have "\<bar>x\<bar> < of_int (2 ^ Suc n)" using hi by simp
    then show ?thesis by (simp only: floor_less_iff)
  qed
  show ?thesis using bitlen_eqI[OF a b] one by (simp add: ilog2_def e)
next
  case False
  define k where "k = nat (- e)"
  have k: "0 < k" "e = - int k" using False by (simp_all add: k_def)
  obtain j where j: "k = Suc j" using k(1) by (cases k) auto
  have lo: "1 / 2 ^ k \<le> \<bar>x\<bar>" using assms(1) by (simp add: k(2) pow2_neg_nat)
  have "e + 1 = - int j" using k(2) j by simp
  then have "pow2 (e + 1) = 1 / 2 ^ j" by (simp add: pow2_neg_nat)
  then have hi: "\<bar>x\<bar> < 1 / 2 ^ j" using assms(2) by simp
  have xpos: "0 < \<bar>x\<bar>"
  proof -
    have "(0::rat) < 1 / 2 ^ k" by simp
    then show ?thesis using lo by linarith
  qed
  have notone: "\<not> 1 \<le> \<bar>x\<bar>"
  proof -
    have "(1::rat) / 2 ^ j \<le> 1" by (simp add: field_simps)
    then show ?thesis using hi by linarith
  qed
  have up: "1 / \<bar>x\<bar> \<le> 2 ^ k"
  proof -
    have "1 \<le> \<bar>x\<bar> * 2 ^ k" using lo by (simp add: field_simps)
    then show ?thesis using xpos by (simp add: field_simps)
  qed
  have dn: "2 ^ j < 1 / \<bar>x\<bar>"
  proof -
    have "\<bar>x\<bar> * 2 ^ j < 1" using hi by (simp add: field_simps)
    then show ?thesis using xpos by (simp add: field_simps)
  qed
  have a: "2 ^ j \<le> \<lceil>1 / \<bar>x\<bar>\<rceil> - 1"
  proof -
    have "of_int (2 ^ j) < 1 / \<bar>x\<bar>" using dn by simp
    then have "2 ^ j < \<lceil>1 / \<bar>x\<bar>\<rceil>" by (simp only: less_ceiling_iff)
    then show ?thesis by linarith
  qed
  have b: "\<lceil>1 / \<bar>x\<bar>\<rceil> - 1 < 2 ^ Suc j"
  proof -
    have "1 / \<bar>x\<bar> \<le> of_int (2 ^ k)" using up by simp
    then have "\<lceil>1 / \<bar>x\<bar>\<rceil> \<le> 2 ^ k" by (simp only: ceiling_le_iff)
    then show ?thesis using j by simp
  qed
  show ?thesis using bitlen_eqI[OF a b] notone by (simp add: ilog2_def k(2) j)
qed

lemma round_half_even_eqI:
  assumes "\<bar>x - of_int n\<bar> < 1 / 2"
  shows "round_half_even x = n"
proof -
  from assms have "x - of_int n < 1 / 2 \<and> - (x - of_int n) < 1 / 2"
    by (simp only: abs_less_iff)
  then have lo: "of_int n - 1 / 2 < x" and hi: "x < of_int n + 1 / 2" by linarith+
  show ?thesis
  proof (cases "of_int n \<le> x")
    case True
    then have "n \<le> \<lfloor>x\<rfloor>" by (simp add: le_floor_iff)
    moreover have "\<lfloor>x\<rfloor> \<le> n"
    proof -
      have "x < of_int n + 1" using hi by linarith
      then have "x < of_int (n + 1)" by simp
      then have "\<lfloor>x\<rfloor> < n + 1" by (simp only: floor_less_iff)
      then show ?thesis by simp
    qed
    ultimately have "\<lfloor>x\<rfloor> = n" by simp
    then show ?thesis using hi True by (simp add: round_half_even_def Let_def)
  next
    case False
    have "of_int n - 1 \<le> x" using lo by linarith
    then have "of_int (n - 1) \<le> x" by simp
    then have "n - 1 \<le> \<lfloor>x\<rfloor>" by (simp only: le_floor_iff)
    moreover have "\<lfloor>x\<rfloor> < n"
    proof -
      have "x < of_int n" using False by simp
      then show ?thesis by (simp only: floor_less_iff)
    qed
    ultimately have e: "\<lfloor>x\<rfloor> = n - 1" by simp
    have "1 / 2 < x - (of_int n - 1)" using lo by linarith
    then have d: "1 / 2 < x - of_int (n - 1)" by simp
    then have "\<not> x - of_int (n - 1) < 1 / 2" by linarith
    then show ?thesis unfolding round_half_even_def Let_def e using d by simp

  qed
qed

lemma round_half_even_tie:
  assumes "x = of_int f + 1 / 2"
  shows "round_half_even x = (if even f then f else f + 1)"
proof -
  have "\<lfloor>x\<rfloor> = f" unfolding assms by (rule floor_unique) simp_all
  then show ?thesis unfolding round_half_even_def Let_def by (simp add: assms)
qed

lemma fl_eq_round:
  assumes "x \<noteq> 0" "pow2 e \<le> \<bar>x\<bar>" "\<bar>x\<bar> < pow2 (e + 1)" "- 1022 \<le> e"
    and "round_half_even (\<bar>x\<bar> / pow2 (e - 52)) = n"
    and "of_int n * pow2 (e - 52) < pow2 1024"
  shows "fl x = Fin (sgn x * (of_int n * pow2 (e - 52)))"
proof -
  have i: "ilog2 x = e" using assms(2,3) by (rule ilog2_eqI)
  have m: "max e (- 1022) = e" using assms(4) by simp
  show ?thesis unfolding fl_def Let_def i m assms(5) using assms(1,6) by simp
qed

lemma fl_eqI:
  assumes "x \<noteq> 0" "pow2 e \<le> \<bar>x\<bar>" "\<bar>x\<bar> < pow2 (e + 1)" "- 1022 \<le> e"
    and "\<bar>\<bar>x\<bar> / pow2 (e - 52) - of_int n\<bar> < 1 / 2"
    and "of_int n * pow2 (e - 52) < pow2 1024"
  shows "fl x = Fin (sgn x * (of_int n * pow2 (e - 52)))"
  using assms(1-4) round_half_even_eqI[OF assms(5)] assms(6) by (rule fl_eq_round)

lemma fl_tenth: "fl (1 / 10) = Fin (3602879701896397 / 36028797018963968)"
  using fl_eqI [of "1 / 10" "- 4" 7205759403792794]
  by (simp add: pow2_def)

lemma fl_zero: "fl 0 = Fin 0"
  by (simp add: fl_def)

lemma two_53: "(2::int) ^ 53 = 9007199254740992"
  by simp

lemma fl_pos_int:
  assumes "0 < n" "n < 2 ^ 53"
  shows "fl (of_int n) = Fin (of_int n)"
proof -
  define a where "a = nat (bitlen n - 1)"
  from bitlen_bounds[OF assms(1)] have b: "2 ^ a \<le> n" "n < 2 ^ nat (bitlen n)"
    by (auto simp: a_def)
  have b1: "1 \<le> bitlen n" using assms(1) by (auto simp: bitlen_alt_def)
  then have sa: "nat (bitlen n) = Suc a" by (simp add: a_def)
  have hi: "n < 2 ^ Suc a" using b(2) sa by simp
  have "(2::int) ^ a < 2 ^ 53" using b(1) assms(2) by linarith
  then have a53: "a < 53" by (rule power_less_imp_less_exp[rotated]) simp
  define m where "m = 52 - a"
  have am: "a + m = 52" using a53 by (simp add: m_def)
  have em: "int a - 52 = - int m" using am by linarith
  have q: "pow2 (int a - 52) = 1 / 2 ^ m" unfolding em by (rule pow2_neg_nat)
  have x0: "(of_int n :: rat) \<noteq> 0" using assms(1) by simp
  have ax: "\<bar>of_int n :: rat\<bar> = of_int n" using assms(1) by simp
  have c1: "pow2 (int a) \<le> \<bar>of_int n :: rat\<bar>"
  proof -
    have "(of_int (2 ^ a) :: rat) \<le> of_int n" using b(1) by (simp only: of_int_le_iff)
    then show ?thesis by (simp add: ax pow2_nat)
  qed
  have c2: "\<bar>of_int n :: rat\<bar> < pow2 (int a + 1)"
  proof -
    have "(of_int n :: rat) < of_int (2 ^ Suc a)" using hi by (simp only: of_int_less_iff)
    moreover have "pow2 (int a + 1) = 2 ^ Suc a" using pow2_nat[of "Suc a"] by (simp add: add.commute)
    ultimately show ?thesis by (simp add: ax)
  qed
  have c3: "\<bar>\<bar>of_int n :: rat\<bar> / pow2 (int a - 52) - of_int (n * 2 ^ m)\<bar> < 1 / 2"
    by (simp add: ax q)
  have c4: "of_int (n * 2 ^ m) * pow2 (int a - 52) < pow2 1024"
  proof -
    have "of_int (n * 2 ^ m) * pow2 (int a - 52) = (of_int n :: rat)" by (simp add: q)
    moreover have "(of_int n :: rat) < of_int (2 ^ 53)" using assms(2) by (simp only: of_int_less_iff)
    moreover have "(of_int (2 ^ 53) :: rat) < pow2 1024" by (simp add: pow2_def)
    ultimately show ?thesis by linarith
  qed
  have "fl (of_int n) = Fin (sgn (of_int n) * (of_int (n * 2 ^ m) * pow2 (int a - 52)))"
    using x0 c1 c2 _ c3 c4 by (rule fl_eqI) simp
  also have "sgn (of_int n :: rat) * (of_int (n * 2 ^ m) * pow2 (int a - 52)) = of_int n"
    using assms(1) by (simp add: q)
  finally show ?thesis .
qed

lemma fl_int:
  assumes "0 \<le> n" "n < 2 ^ 53"
  shows "fl (of_int n) = Fin (of_int n)"
  using assms fl_pos_int[of n] fl_zero by (cases "n = 0") auto




lemma js_add_Fin: "js_add (Fin x) (Fin y) = fl (x + y)"
  by (simp add: js_add_def)

lemma js_mul_Fin: "js_mul (Fin x) (Fin y) = fl (x * y)"
  by (simp add: js_mul_def)






lemma calculatePrice_string:
  assumes "operatingSystem body = JStr os"
  shows "calculatePrice body =
     Inr \<lparr>totalPrice =
            toFixed2 (js_add (js_add (js_add (cpuPrice body) (ramPrice body)) (storagePrice body))
                        (osPrice (str_includes os ''Windows''))),
          breakdown = \<lparr>b_cpu = cpuPrice body, b_ram = ramPrice body,
                       b_storage = storagePrice body,
                       b_operatingSystem = osPrice (str_includes os ''Windows'')\<rparr>\<rparr>"
  using assms by (simp add: calculatePrice_def js_includes_def Let_def)





lemma str_includes_Ubuntu: "\<not> str_includes ''Ubuntu 22.04 LTS'' ''Windows''"
  by simp







text \<open>
  Two more values of the handler: three gigabytes cost 0.30000000000000004, and
  1.45 gigabytes cost 0.14499999999999999, which the total rounds to 0.14.
\<close>

lemma fl_three_tenths_product:
  "fl (10808639105689191 / 36028797018963968) = Fin (1351079888211149 / 4503599627370496)"
proof -
  have r: "round_half_even (\<bar>10808639105689191 / 36028797018963968\<bar> / pow2 (- 2 - 52))
      = 5404319552844596"
    using round_half_even_tie [of "10808639105689191 / 2" 5404319552844595]
    by (simp add: pow2_def)
  show ?thesis
    using fl_eq_round [of "10808639105689191 / 36028797018963968" "- 2" 5404319552844596] r
    by (simp add: pow2_def)
qed

lemma storagePrice_three:
  "storagePrice \<lparr>cpuCores = c, ramGb = r, storageGb = 3, operatingSystem = v\<rparr>
     = Fin (1351079888211149 / 4503599627370496)"
proof -
  have "fl 3 = Fin 3" using fl_int [of 3] by simp
  then show ?thesis
    by (simp add: storagePrice_def fl_tenth js_mul_Fin fl_three_tenths_product)
qed

lemma fl_1_45: "fl (29 / 20) = Fin (6530219459687219 / 4503599627370496)"
  using fl_eqI [of "29 / 20" 0 6530219459687219] by (simp add: pow2_def)

lemma fl_1_45_product:
  "fl (23527595140235938277246763049943 / 162259276829213363391578010288128)
     = Fin (5224175567749775 / 36028797018963968)"
  using fl_eqI [of "23527595140235938277246763049943 / 162259276829213363391578010288128"
      "- 3" 5224175567749775]
  by (simp add: pow2_def)

lemma fl_0_145: "fl (5224175567749775 / 36028797018963968) = Fin (5224175567749775 / 36028797018963968)"
  using fl_eqI [of "5224175567749775 / 36028797018963968" "- 3" 5224175567749775]
  by (simp add: pow2_def)

lemma fl_14_cents: "fl (14 / 100) = Fin (1261007895663739 / 9007199254740992)"
  using fl_eqI [of "14 / 100" "- 3" 5044031582654956] by (simp add: pow2_def)

lemma calculatePrice_1_45:
  "calculatePrice \<lparr>cpuCores = 0, ramGb = 0, storageGb = 29 / 20,
                   operatingSystem = JStr ''Ubuntu 22.04 LTS''\<rparr>
     = Inr \<lparr>totalPrice = Fin (1261007895663739 / 9007199254740992),
            breakdown = \<lparr>b_cpu = Fin 0, b_ram = Fin 0,
                         b_storage = Fin (5224175567749775 / 36028797018963968),
                         b_operatingSystem = Fin 0\<rparr>\<rparr>"
proof -
  let ?b = "\<lparr>cpuCores = 0, ramGb = 0, storageGb = 29 / 20,
             operatingSystem = JStr ''Ubuntu 22.04 LTS''\<rparr>"
  have cp: "cpuPrice ?b = Fin 0" by (simp add: cpuPrice_def fl_zero js_mul_Fin)
  have rp: "ramPrice ?b = Fin 0" by (simp add: ramPrice_def fl_zero js_mul_Fin)
  have sp: "storagePrice ?b = Fin (5224175567749775 / 36028797018963968)"
    by (simp add: storagePrice_def fl_1_45 fl_tenth js_mul_Fin fl_1_45_product)
  have op: "osPrice (str_includes ''Ubuntu 22.04 LTS'' ''Windows'') = Fin 0"
    using str_includes_Ubuntu by (simp add: osPrice_def)
  have sum: "js_add (js_add (js_add (Fin 0) (Fin 0)) (Fin (5224175567749775 / 36028797018963968)))
               (Fin 0) = Fin (5224175567749775 / 36028797018963968)"
    by (simp add: js_add_Fin fl_zero fl_0_145)
  have fx: "toFixed2 (Fin (5224175567749775 / 36028797018963968))
      = Fin (1261007895663739 / 9007199254740992)"
  proof -
    have "\<lfloor>(5224175567749775 / 36028797018963968 :: rat) * 100 + 1 / 2\<rfloor> = 14"
      by (rule floor_unique) simp_all
    moreover have "\<not> (10 ^ 21 \<le> \<bar>5224175567749775 / 36028797018963968 :: rat\<bar>)" by simp
    moreover have "\<bar>5224175567749775 / 36028797018963968 :: rat\<bar> = 5224175567749775 / 36028797018963968"
      by simp
    moreover have "sgn (5224175567749775 / 36028797018963968 :: rat) = 1" by simp
    ultimately show ?thesis
      unfolding toFixed2_def jsnum.case using fl_14_cents by (simp only: if_False) simp
  qed
  show ?thesis
    using calculatePrice_string [of ?b "''Ubuntu 22.04 LTS''"]
    by (simp only: cp rp sp op sum fx PriceBody.simps)
qed

end
